theory Spec2Isabelle
  imports Complex_Main
begin

section \<open>JavaScript strings\<close>

text \<open>
  A JavaScript string is a sequence of UTF-16 code units. It is modelled as a HOL
  \<open>string\<close>, one \<open>char\<close> per code unit, which covers the code units below 256
  (ASCII and Latin-1); every identifier, keyword and language tag of the program is in
  that range.
\<close>

definition charCodeAt0 :: "char \<Rightarrow> nat" where
  "charCodeAt0 c = of_char c"

definition toLowerChar :: "char \<Rightarrow> char" where
  "toLowerChar c =
     (let n = (of_char c :: nat)
      in if (65 \<le> n \<and> n \<le> 90) \<or> (192 \<le> n \<and> n \<le> 222 \<and> n \<noteq> 215)
         then char_of (n + 32) else c)"

definition toLowerCase :: "string \<Rightarrow> string" where
  "toLowerCase s = map toLowerChar s"

text \<open>\<open>s.startsWith(p)\<close>\<close>

definition startsWith :: "string \<Rightarrow> string \<Rightarrow> bool" where
  "startsWith s p = (take (length p) s = p)"

text \<open>\<open>s.includes(p)\<close>: \<open>p\<close> occurs in \<open>s\<close> at some position.\<close>

fun includes_str :: "string \<Rightarrow> string \<Rightarrow> bool" where
  "includes_str [] p = (p = [])"
| "includes_str (c # s) p = (startsWith (c # s) p \<or> includes_str s p)"

text \<open>\<open>s.split('-')[0]\<close>: the part of \<open>s\<close> before its first hyphen.\<close>

definition splitHyphen0 :: "string \<Rightarrow> string" where
  "splitHyphen0 s = takeWhile (\<lambda>c. c \<noteq> CHR ''-'') s"

text \<open>
  The white space and line terminators that \<open>String.prototype.trim\<close> strips, among
  the code units below 256: TAB, LF, VT, FF, CR, SPACE and NBSP.
\<close>

definition isTrimSpace :: "char \<Rightarrow> bool" where
  "isTrimSpace c = ((of_char c :: nat) \<in> {9, 10, 11, 12, 13, 32, 160})"

definition trim :: "string \<Rightarrow> string" where
  "trim s = rev (dropWhile isTrimSpace (rev (dropWhile isTrimSpace s)))"

text \<open>\<open>xs[i]\<close> on an array: \<open>undefined\<close> (here \<open>None\<close>) out of range.\<close>

definition at_index :: "'a list \<Rightarrow> nat \<Rightarrow> 'a option" where
  "at_index xs i = (if i < length xs then Some (xs ! i) else None)"

section \<open>Data model (types.ts)\<close>

datatype gender = Male | Female | Neutral

datatype voiceProfile = Low | Medium | High

datatype voiceSpeed = Slow | NormalSpeed | Fast

record character =
  c_id :: string
  c_name :: string
  c_avatar :: string
  c_personality :: string
  c_memory :: string
  c_purpose :: "string option"
  c_gender :: gender
  c_language :: string
  c_voiceProfile :: voiceProfile
  c_voiceSpeed :: voiceSpeed

text \<open>The browser's \<open>SpeechSynthesisVoice\<close>.\<close>

record voice =
  v_name :: string
  v_lang :: string
  v_localService :: bool
  v_default :: bool
  v_voiceURI :: string

section \<open>Voice selection (ChatWindow, getCharacterVoice)\<close>

definition maleKeywords :: "string list" where
  "maleKeywords =
     [''male'', ''david'', ''mark'', ''james'', ''tom'', ''alex'', ''daniel'', ''fred'', ''rishi'']"

definition femaleKeywords :: "string list" where
  "femaleKeywords =
     [''female'', ''zira'', ''susan'', ''linda'', ''hazel'', ''karen'', ''moira'', ''samantha'',
      ''tessa'']"

text \<open>
  The score the sort comparator computes for one voice (\<open>scoreA\<close>, \<open>scoreB\<close>): the
  gender part, skipped for a neutral persona, then the quality part.
\<close>

definition genderScore :: "character \<Rightarrow> string \<Rightarrow> int" where
  "genderScore ch aName =
     (if c_gender ch \<noteq> Neutral then
        (let targetKeywords = (if c_gender ch = Male then maleKeywords else femaleKeywords);
             oppositeKeywords = (if c_gender ch = Male then femaleKeywords else maleKeywords)
         in (if list_ex (\<lambda>kw. includes_str aName kw) targetKeywords then 100 else 0)
            - (if list_ex (\<lambda>kw. includes_str aName kw) oppositeKeywords then 50 else 0))
      else 0)"

definition voiceScore :: "character \<Rightarrow> voice \<Rightarrow> int" where
  "voiceScore ch a =
     (let aName = toLowerCase (v_name a)
      in genderScore ch aName
         + (if v_localService a then 10 else 0)
         + (if includes_str aName ''google'' then 5 else 0)
         + (if includes_str aName ''microsoft'' then 3 else 0)
         - (if v_default a then 1 else 0))"

text \<open>
  \<open>[...langVoices].sort((a, b) => scoreB - scoreA)\<close>: \<open>Array.prototype.sort\<close> is
  stable, and the comparator orders by descending score, so the result is the stable
  sort on the negated score.
\<close>

definition sortVoices :: "character \<Rightarrow> voice list \<Rightarrow> voice list" where
  "sortVoices ch langVoices = sort_key (\<lambda>v. - voiceScore ch v) langVoices"

definition charCodeSum :: "string \<Rightarrow> nat" where
  "charCodeSum s = foldl (\<lambda>acc c. acc + charCodeAt0 c) 0 s"

definition getCharacterVoice :: "voice list \<Rightarrow> character \<Rightarrow> voice option" where
  "getCharacterVoice voices ch =
     (if length voices = 0 then None
      else
        let lang = (if c_language ch = [] then ''en-US'' else c_language ch);
            langVoices1 = filter (\<lambda>v. startsWith (v_lang v) (splitHyphen0 lang)) voices;
            langVoices = (if length langVoices1 = 0
                          then filter (\<lambda>v. startsWith (v_lang v) ''en'') voices
                          else langVoices1)
        in if length langVoices = 0 then at_index voices 0
           else
             let sortedVoices = sortVoices ch langVoices
             in if length sortedVoices = 0
                then (case at_index langVoices 0 of Some v \<Rightarrow> Some v | None \<Rightarrow> at_index voices 0)
                else at_index sortedVoices (charCodeSum (c_id ch) mod length sortedVoices))"

section \<open>Messages and the reply decoder (App)\<close>

text \<open>
  The values \<open>JSON.parse\<close> produces, and \<open>undefined\<close> for an absent property. The
  fields of a message are typed \<open>string\<close> (or string array) in types.ts, but at run time
  they hold whatever the parsed reply held, so they are modelled as values.
\<close>

datatype jsval =
    Undefined
  | Null
  | Bool bool
  | Num real
  | Str string
  | Arr "jsval list"
  | Obj "(string \<times> jsval) list"

text \<open>Truthiness, as the operator \<open>||\<close> tests it.\<close>

fun truthy :: "jsval \<Rightarrow> bool" where
  "truthy Undefined = False"
| "truthy Null = False"
| "truthy (Bool b) = b"
| "truthy (Num r) = (r \<noteq> 0)"
| "truthy (Str s) = (s \<noteq> [])"
| "truthy (Arr xs) = True"
| "truthy (Obj kvs) = True"

text \<open>
  \<open>v.k\<close> for one of the property names the decoder reads (\<open>dialogue\<close>, \<open>thought\<close>,
  \<open>action\<close>, \<open>user_response_options\<close>): a TypeError (here \<open>None\<close>) on \<open>null\<close> and
  \<open>undefined\<close>, the member of an object, and \<open>undefined\<close> on every other value.
\<close>

fun getProp :: "jsval \<Rightarrow> string \<Rightarrow> jsval option" where
  "getProp Undefined k = None"
| "getProp Null k = None"
| "getProp (Obj kvs) k = Some (case map_of kvs k of Some v \<Rightarrow> v | None \<Rightarrow> Undefined)"
| "getProp v k = Some Undefined"

datatype role = User | Model

text \<open>
  The \<open>Message\<close> of types.ts. Its image fields (\<open>imageUrl\<close>, \<open>imagePrompt\<close>,
  \<open>isGeneratingImage\<close>) are never set by the application and are left out.
\<close>

record message =
  m_id :: string
  m_role :: role
  m_text :: jsval
  m_thought :: jsval
  m_action :: jsval
  m_userResponseOptions :: jsval

text \<open>\<open>{ id: crypto.randomUUID(), role, text }\<close>\<close>

definition plainMessage :: "string \<Rightarrow> role \<Rightarrow> string \<Rightarrow> message" where
  "plainMessage uid r txt =
     \<lparr>m_id = uid, m_role = r, m_text = Str txt, m_thought = Undefined, m_action = Undefined,
      m_userResponseOptions = Undefined\<rparr>"

text \<open>
  The \<open>try { JSON.parse(response.text) ... } catch (e) { ... }\<close> block that the send,
  greeting and follow-up paths share; they differ in the fallback string only.
  \<open>JSON_parse\<close> is the platform's parser: \<open>None\<close> when it throws a SyntaxError.
  \<open>uid\<close> is the result of \<open>crypto.randomUUID()\<close> for the message that is built.
\<close>

definition decodeReply ::
  "(string \<Rightarrow> jsval option) \<Rightarrow> string \<Rightarrow> string \<Rightarrow> string \<Rightarrow> message" where
  "decodeReply JSON_parse fallback uid response_text =
     (let caught = plainMessage uid Model (if response_text = [] then fallback else response_text)
      in case JSON_parse response_text of
           None \<Rightarrow> caught
         | Some responseJson \<Rightarrow>
             (case (getProp responseJson ''dialogue'', getProp responseJson ''thought'',
                    getProp responseJson ''action'', getProp responseJson ''user_response_options'')
              of (Some dialogue, Some thought, Some action, Some user_response_options) \<Rightarrow>
                   \<lparr>m_id = uid, m_role = Model,
                    m_text = (if truthy dialogue then dialogue else Str ''...''),
                    m_thought = thought, m_action = action,
                    m_userResponseOptions = user_response_options\<rparr>
               | _ \<Rightarrow> caught))"

definition sendFallback :: string where
  "sendFallback = ''I seem to be having trouble thinking straight...''"

definition greetingFallback :: string where
  "greetingFallback = ''Hello there.''"

definition followUpFallback :: string where
  "followUpFallback = ''Hmm..?''"

definition errorText :: string where
  "errorText = ''Oops! Something went wrong. Please check your API key and try again.''"

section \<open>Saving a persona (App, handleSaveCharacter)\<close>

definition RANDOM_PURPOSES :: "string list" where
  "RANDOM_PURPOSES =
     [''To convince the user to invest in a new, slightly absurd invention.'',
      ''To find a missing piece of an ancient artifact and believes the user knows something about it.'',
      ''To recruit the user for a secret society that communicates exclusively through puns.'',
      ''To get advice on a difficult personal problem, like how to tell their robot pet it's adopted.'',
      ''To plan the perfect surprise party for a mutual friend who might be a figment of their imagination.'',
      ''To seek help in solving a cryptic riddle that was left on a napkin.'',
      ''To borrow a cup of sugar, but for a strange, otherworldly recipe.'',
      ''To find a worthy opponent for a high-stakes game of intergalactic chess.'']"

text \<open>
  \<open>RANDOM_PURPOSES[Math.floor(Math.random() * RANDOM_PURPOSES.length)]\<close>, with
  \<open>u\<close> the number \<open>Math.random()\<close> returned (in the interval from 0 up to but not
  including 1); \<open>None\<close> is \<open>undefined\<close>.
\<close>

definition randomPurpose :: "real \<Rightarrow> string option" where
  "randomPurpose u = at_index RANDOM_PURPOSES (nat \<lfloor>u * real (length RANDOM_PURPOSES)\<rfloor>)"

text \<open>\<open>!characterToSave.purpose?.trim()\<close>\<close>

definition purposeBlank :: "character \<Rightarrow> bool" where
  "purposeBlank ch = (case c_purpose ch of None \<Rightarrow> True | Some p \<Rightarrow> trim p = [])"

definition characterToSave :: "character \<Rightarrow> real \<Rightarrow> character" where
  "characterToSave ch u =
     (if purposeBlank ch then ch\<lparr>c_purpose := randomPurpose u\<rparr> else ch)"

section \<open>Application state (App)\<close>

datatype chatMode = Normal | Game

text \<open>Which callback a pending timeout runs.\<close>

datatype timerKind = InactivityTimer | GreetingTimer

datatype callKind = SendCall | GreetingCall | FollowUpCall | AnalysisCall

text \<open>
  A request to the generative-model API, with the values its continuation closes over:
  the persona it was made for (\<open>activeCharacterId\<close>), the history that seeds the session,
  the message sent, the history the reply is appended to (\<open>updatedHistory\<close> on the send
  path, \<open>currentHistory\<close> on the other two) and the \<open>chatMode\<close> at the time of the call.
\<close>

record gatewayCall =
  g_kind :: callKind
  g_character :: string
  g_seed :: "message list"
  g_prompt :: string
  g_base :: "message list"
  g_mode :: chatMode

text \<open>What the awaited call comes back with: a rejected promise, or \<open>response.text\<close>.\<close>

datatype gatewayResult = TransportFailure | Response string

text \<open>
  The React state and refs of \<open>App\<close>, followed by the environment they act on: the
  browser's table of pending timeouts (handle and callback), the next handle
  \<open>setTimeout\<close> returns (handles are positive, so a stored handle is always truthy),
  the calls awaiting their reply, the log of every call issued, and the notices shown
  with \<open>alert\<close> and \<open>console.error\<close>.
\<close>

record app =
  characters :: "character list"
  activeCharacterId :: "string option"
  chats :: "string \<rightharpoonup> message list"
  isModalOpen :: bool
  editingCharacter :: "character option"
  isLoading :: bool
  analysisResult :: "jsval option"
  isAnalyzing :: bool
  isAnalysisModalOpen :: bool
  chatMode :: chatMode
  inactivityTimerRef :: "nat option"
  proactiveGreetingTimerRef :: "nat option"
  followUpSentRef :: bool
  timers :: "(nat \<times> timerKind) list"
  nextTimer :: nat
  inFlight :: "gatewayCall list"
  issued :: "gatewayCall list"
  alerts :: "string list"
  consoleErrors :: "string list"

definition initialApp :: app where
  "initialApp =
     \<lparr>characters = [], activeCharacterId = None, chats = Map.empty, isModalOpen = False,
      editingCharacter = None, isLoading = False, analysisResult = None, isAnalyzing = False,
      isAnalysisModalOpen = False, chatMode = Normal, inactivityTimerRef = None,
      proactiveGreetingTimerRef = None, followUpSentRef = False, timers = [], nextTimer = 1,
      inFlight = [], issued = [], alerts = [], consoleErrors = []\<rparr>"

text \<open>
  The state after mount: the stored personas and conversations have been read from
  local storage (both empty on a first visit), and no persona is active.
\<close>

definition appLoaded :: "character list \<Rightarrow> (string \<rightharpoonup> message list) \<Rightarrow> app" where
  "appLoaded storedCharacters storedChats =
     initialApp\<lparr>characters := storedCharacters, chats := storedChats\<rparr>"

subsection \<open>Timers\<close>

definition clearTimeout :: "nat \<Rightarrow> app \<Rightarrow> app" where
  "clearTimeout h s = s\<lparr>timers := filter (\<lambda>t. fst t \<noteq> h) (timers s)\<rparr>"

text \<open>\<open>if (ref.current) { clearTimeout(ref.current); }\<close>\<close>

definition clearIfSet :: "nat option \<Rightarrow> app \<Rightarrow> app" where
  "clearIfSet r s = (case r of None \<Rightarrow> s | Some h \<Rightarrow> clearTimeout h s)"

text \<open>\<open>setTimeout(callback, delay)\<close>: the new handle is \<open>nextTimer\<close> of the state before.\<close>

definition setTimeout :: "timerKind \<Rightarrow> app \<Rightarrow> app" where
  "setTimeout k s = s\<lparr>timers := timers s @ [(nextTimer s, k)], nextTimer := Suc (nextTimer s)\<rparr>"

text \<open>\<open>inactivityTimerRef.current = setTimeout(() => latestHandleSendFollowUp.current(), 15000)\<close>\<close>

definition armInactivity :: "app \<Rightarrow> app" where
  "armInactivity s = (setTimeout InactivityTimer s)\<lparr>inactivityTimerRef := Some (nextTimer s)\<rparr>"

text \<open>\<open>proactiveGreetingTimerRef.current = setTimeout(() => latestHandleProactiveGreeting.current(), 10000)\<close>\<close>

definition armGreeting :: "app \<Rightarrow> app" where
  "armGreeting s = (setTimeout GreetingTimer s)\<lparr>proactiveGreetingTimerRef := Some (nextTimer s)\<rparr>"

text \<open>\<open>if (inactivityTimerRef.current) { clearTimeout(...); inactivityTimerRef.current = null; }\<close>\<close>

definition cancelInactivity :: "app \<Rightarrow> app" where
  "cancelInactivity s = (clearIfSet (inactivityTimerRef s) s)\<lparr>inactivityTimerRef := None\<rparr>"

definition cancelGreeting :: "app \<Rightarrow> app" where
  "cancelGreeting s =
     (clearIfSet (proactiveGreetingTimerRef s) s)\<lparr>proactiveGreetingTimerRef := None\<rparr>"

text \<open>\<open>chats[id] || []\<close>\<close>

definition historyOf :: "app \<Rightarrow> string \<Rightarrow> message list" where
  "historyOf s cid = (case chats s cid of None \<Rightarrow> [] | Some h \<Rightarrow> h)"

text \<open>\<open>characters.find(c => c.id === id)\<close>\<close>

definition findCharacter :: "app \<Rightarrow> string \<Rightarrow> character option" where
  "findCharacter s cid = find (\<lambda>c. c_id c = cid) (characters s)"

text \<open>
  The active persona as the tests \<open>!activeCharacterId\<close> and \<open>activeCharacterId &&\<close>
  see it: \<open>null\<close> and the empty string are both falsy.
\<close>

definition activeId :: "app \<Rightarrow> string option" where
  "activeId s =
     (case activeCharacterId s of None \<Rightarrow> None | Some cid \<Rightarrow> if cid = [] then None else Some cid)"

subsection \<open>Effects\<close>

text \<open>
  The cleanup of the effect on \<open>[activeCharacterId]\<close>: it runs when the active persona
  changes, and clears both timers without resetting the refs.
\<close>

definition switchCleanup :: "app \<Rightarrow> app" where
  "switchCleanup s =
     clearIfSet (proactiveGreetingTimerRef s) (clearIfSet (inactivityTimerRef s) s)"

text \<open>
  The effect on \<open>[activeCharacterId, chats]\<close>. React re-runs it after every render in
  which the active persona or the \<open>chats\<close> object changed (every \<open>setChats\<close> builds a
  new object): first the cleanup of the previous run, then the body, which arms the
  greeting timer when
  \<open>activeCharacterId && (!chats[activeCharacterId] || chats[activeCharacterId].length === 0)\<close>.
\<close>

definition greetingDue :: "app \<Rightarrow> bool" where
  "greetingDue s =
     (case activeId s of None \<Rightarrow> False | Some cid \<Rightarrow> length (historyOf s cid) = 0)"

definition greetingEffect :: "app \<Rightarrow> app" where
  "greetingEffect s =
     (let s1 = clearIfSet (proactiveGreetingTimerRef s) s;
          s2 = clearIfSet (proactiveGreetingTimerRef s1) s1
      in if greetingDue s2 then armGreeting s2 else s2)"

text \<open>
  \<open>setChats(prev => ({ ...prev, [id]: history }))\<close>. The render that follows runs the
  greeting effect; each handler below applies it after its last state update.
\<close>

definition setChat :: "string \<Rightarrow> message list \<Rightarrow> app \<Rightarrow> app" where
  "setChat cid h s = s\<lparr>chats := (chats s)(cid \<mapsto> h)\<rparr>"

text \<open>
  \<open>onSelectCharacter = setActiveCharacterId\<close>: setting the id that is already active
  changes no dependency, so no effect runs; otherwise the cleanup of the first effect,
  then the greeting effect.
\<close>

definition selectCharacter :: "string \<Rightarrow> app \<Rightarrow> app" where
  "selectCharacter cid s =
     (if activeCharacterId s = Some cid then s
      else greetingEffect (switchCleanup (s\<lparr>activeCharacterId := Some cid\<rparr>)))"

subsection \<open>Handlers\<close>

text \<open>\<open>handleSaveCharacter\<close>; \<open>!chats[id]\<close> holds only for an absent key, an empty array being truthy.\<close>

definition handleSaveCharacter :: "character \<Rightarrow> real \<Rightarrow> app \<Rightarrow> app" where
  "handleSaveCharacter ch u s =
     (let cts = characterToSave ch u;
          s1 = s\<lparr>characters :=
                   (case find (\<lambda>c. c_id c = c_id cts) (characters s) of
                      Some existing \<Rightarrow> map (\<lambda>c. if c_id c = c_id cts then cts else c) (characters s)
                    | None \<Rightarrow> characters s @ [cts])\<rparr>;
          s2 = s1\<lparr>editingCharacter := None, isModalOpen := False\<rparr>
      in if chats s (c_id cts) = None then greetingEffect (setChat (c_id cts) [] s2) else s2)"

definition handleDeleteCharacter :: "string \<Rightarrow> app \<Rightarrow> app" where
  "handleDeleteCharacter cid s =
     (let s1 = s\<lparr>characters := filter (\<lambda>c. c_id c \<noteq> cid) (characters s),
                  chats := (chats s)(cid := None)\<rparr>;
          s2 = (if activeCharacterId s = Some cid
                then switchCleanup (s1\<lparr>activeCharacterId := None\<rparr>) else s1)
      in greetingEffect s2)"

definition issue :: "gatewayCall \<Rightarrow> app \<Rightarrow> app" where
  "issue c s = s\<lparr>inFlight := inFlight s @ [c], issued := issued s @ [c]\<rparr>"

definition followUpPrompt :: string where
  "followUpPrompt = ''The user has been silent for a moment. Send a short, natural message to re-engage them. You could ask a question, make an observation, or gently remind them of your goal. Crucially, DO NOT mention that they've been silent or ask if they are still there. Just continue the conversation smoothly.''"

definition greetingPrompt :: string where
  "greetingPrompt = ''You are starting the conversation. Say hello in your own unique way and say something to engage the user, based on your purpose. Be proactive. DO NOT mention that the user has been silent or that you are starting because they were idle.''"

text \<open>\<open>handleSendMessage\<close>, up to the \<open>await\<close>; \<open>uid\<close> is the id of the user message.\<close>

definition handleSendMessage :: "string \<Rightarrow> string \<Rightarrow> app \<Rightarrow> app" where
  "handleSendMessage messageText uid s =
     (case activeId s of
        None \<Rightarrow> s
      | Some cid \<Rightarrow>
          (let s1 = (cancelGreeting (cancelInactivity s))\<lparr>followUpSentRef := False\<rparr>
           in case findCharacter s cid of
                None \<Rightarrow> s1
              | Some activeCharacter \<Rightarrow>
                  (let userMessage = plainMessage uid User messageText;
                       currentHistory = historyOf s cid;
                       updatedHistory = currentHistory @ [userMessage];
                       s2 = (setChat cid updatedHistory s1)\<lparr>isLoading := True\<rparr>;
                       s3 = issue \<lparr>g_kind = SendCall, g_character = cid, g_seed = currentHistory,
                                   g_prompt = messageText, g_base = updatedHistory,
                                   g_mode = chatMode s\<rparr> s2
                   in greetingEffect s3)))"

text \<open>
  The rest of \<open>handleSendMessage\<close>, once the awaited call has settled; \<open>uid\<close> is the id
  of the message that is appended.
\<close>

definition sendMessageSettled ::
  "(string \<Rightarrow> jsval option) \<Rightarrow> gatewayCall \<Rightarrow> gatewayResult \<Rightarrow> string \<Rightarrow> app \<Rightarrow> app" where
  "sendMessageSettled JSON_parse c r uid s =
     (case r of
        Response response_text \<Rightarrow>
          (let aiMessage = decodeReply JSON_parse sendFallback uid response_text;
               s1 = setChat (g_character c) (g_base c @ [aiMessage]) s;
               s2 = (if g_mode c = Normal then armInactivity s1 else s1)
           in greetingEffect (s2\<lparr>isLoading := False\<rparr>))
      | TransportFailure \<Rightarrow>
          (let s1 = s\<lparr>consoleErrors := consoleErrors s @ [''Error communicating with Gemini API:'']\<rparr>;
               errorMessage = plainMessage uid Model errorText;
               s2 = setChat (g_character c) (g_base c @ [errorMessage]) s1
           in greetingEffect (s2\<lparr>isLoading := False\<rparr>)))"

text \<open>\<open>handleSendFollowUp\<close>, the callback of the inactivity timer, up to the \<open>await\<close>.\<close>

definition handleSendFollowUp :: "app \<Rightarrow> app" where
  "handleSendFollowUp s =
     (if isLoading s \<or> activeId s = None \<or> followUpSentRef s then s
      else case activeId s of
        None \<Rightarrow> s
      | Some cid \<Rightarrow>
          (case findCharacter s cid of
             None \<Rightarrow> s
           | Some activeCharacter \<Rightarrow>
               (let s1 = (cancelInactivity s)\<lparr>followUpSentRef := True, isLoading := True\<rparr>;
                    currentHistory = historyOf s cid
                in issue \<lparr>g_kind = FollowUpCall, g_character = cid, g_seed = currentHistory,
                           g_prompt = followUpPrompt, g_base = currentHistory,
                           g_mode = chatMode s\<rparr> s1)))"

definition followUpSettled ::
  "(string \<Rightarrow> jsval option) \<Rightarrow> gatewayCall \<Rightarrow> gatewayResult \<Rightarrow> string \<Rightarrow> app \<Rightarrow> app" where
  "followUpSettled JSON_parse c r uid s =
     (case r of
        Response response_text \<Rightarrow>
          (let aiMessage = decodeReply JSON_parse followUpFallback uid response_text;
               s1 = setChat (g_character c) (g_base c @ [aiMessage]) s
           in greetingEffect (s1\<lparr>isLoading := False\<rparr>))
      | TransportFailure \<Rightarrow>
          s\<lparr>consoleErrors := consoleErrors s @ [''Error sending AI follow-up:''],
            isLoading := False\<rparr>)"

text \<open>\<open>handleProactiveGreeting\<close>, the callback of the greeting timer, up to the \<open>await\<close>.\<close>

definition handleProactiveGreeting :: "app \<Rightarrow> app" where
  "handleProactiveGreeting s =
     (if isLoading s \<or> activeId s = None then s
      else case activeId s of
        None \<Rightarrow> s
      | Some cid \<Rightarrow>
          (case findCharacter s cid of
             None \<Rightarrow> s
           | Some activeCharacter \<Rightarrow>
               (let currentHistory = historyOf s cid
                in if length currentHistory > 0 then s
                   else
                     (let s1 = (cancelGreeting s)\<lparr>isLoading := True\<rparr>
                      in issue \<lparr>g_kind = GreetingCall, g_character = cid, g_seed = [],
                                 g_prompt = greetingPrompt, g_base = currentHistory,
                                 g_mode = chatMode s\<rparr> s1))))"

definition greetingSettled ::
  "(string \<Rightarrow> jsval option) \<Rightarrow> gatewayCall \<Rightarrow> gatewayResult \<Rightarrow> string \<Rightarrow> app \<Rightarrow> app" where
  "greetingSettled JSON_parse c r uid s =
     (case r of
        Response response_text \<Rightarrow>
          (let aiMessage = decodeReply JSON_parse greetingFallback uid response_text;
               updatedHistory = g_base c @ [aiMessage];
               s1 = setChat (g_character c) updatedHistory s;
               s2 = (if g_mode c = Normal then armInactivity s1 else s1)
           in greetingEffect (s2\<lparr>isLoading := False\<rparr>))
      | TransportFailure \<Rightarrow>
          s\<lparr>consoleErrors := consoleErrors s @ [''Error sending AI greeting:''],
            isLoading := False\<rparr>)"

definition analysisNotice :: string where
  "analysisNotice = ''Please have a bit more conversation before analyzing the user.''"

definition analysisErrorNotice :: string where
  "analysisErrorNotice = ''An error occurred while analyzing the user. Please try again.''"

definition analysisPrompt :: string where
  "analysisPrompt = ''Please analyze the user from the conversation provided in the system instructions.''"

text \<open>\<open>handleAnalyzeUser\<close>, up to the \<open>await\<close>.\<close>

definition handleAnalyzeUser :: "app \<Rightarrow> app" where
  "handleAnalyzeUser s =
     (case activeId s of
        None \<Rightarrow> s
      | Some cid \<Rightarrow>
          (let currentHistory = historyOf s cid;
               userMessages = filter (\<lambda>msg. m_role msg = User) currentHistory
           in if length userMessages < 2
              then s\<lparr>alerts := alerts s @ [analysisNotice]\<rparr>
              else issue \<lparr>g_kind = AnalysisCall, g_character = cid, g_seed = currentHistory,
                         g_prompt = analysisPrompt, g_base = currentHistory,
                         g_mode = chatMode s\<rparr>
                     (s\<lparr>isAnalyzing := True, isAnalysisModalOpen := True,
                        analysisResult := None\<rparr>)))"

definition analysisSettled :: "(string \<Rightarrow> jsval option) \<Rightarrow> gatewayResult \<Rightarrow> app \<Rightarrow> app" where
  "analysisSettled JSON_parse r s =
     (let failed = s\<lparr>consoleErrors := consoleErrors s @ [''Error analyzing user:''],
                      alerts := alerts s @ [analysisErrorNotice],
                      isAnalysisModalOpen := False, isAnalyzing := False\<rparr>
      in case r of
           TransportFailure \<Rightarrow> failed
         | Response response_text \<Rightarrow>
             (case JSON_parse response_text of
                None \<Rightarrow> failed
              | Some resultJson \<Rightarrow> s\<lparr>analysisResult := Some resultJson, isAnalyzing := False\<rparr>))"

subsection \<open>The user interface (Sidebar, ChatWindow, CharacterModal)\<close>

definition handleOpenModal :: "character option \<Rightarrow> app \<Rightarrow> app" where
  "handleOpenModal c s = s\<lparr>editingCharacter := c, isModalOpen := True\<rparr>"

text \<open>The state of the form of \<open>CharacterModal\<close>.\<close>

record characterForm =
  f_name :: string
  f_avatar :: string
  f_personality :: string
  f_memory :: string
  f_purpose :: string
  f_gender :: gender
  f_language :: string
  f_voiceProfile :: voiceProfile
  f_voiceSpeed :: voiceSpeed

text \<open>
  \<open>handleSubmit\<close> of \<open>CharacterModal\<close>; \<open>uuid\<close> is what \<open>crypto.randomUUID()\<close>
  returns if it is called, \<open>u\<close> what \<open>Math.random()\<close> returns.
\<close>

definition modalSubmit :: "characterForm \<Rightarrow> string \<Rightarrow> real \<Rightarrow> app \<Rightarrow> app" where
  "modalSubmit f uuid u s =
     (if trim (f_name f) = [] \<or> trim (f_personality f) = []
      then s\<lparr>alerts := alerts s @ [''Name and Personality are required.'']\<rparr>
      else
        handleSaveCharacter
          \<lparr>c_id = (case editingCharacter s of
                     None \<Rightarrow> uuid
                   | Some character \<Rightarrow> if c_id character = [] then uuid else c_id character),
           c_name = f_name f, c_avatar = f_avatar f, c_personality = f_personality f,
           c_memory = f_memory f, c_purpose = Some (f_purpose f), c_gender = f_gender f,
           c_language = f_language f, c_voiceProfile = f_voiceProfile f,
           c_voiceSpeed = f_voiceSpeed f\<rparr> u s)"

text \<open>
  \<open>ChatWindow\<close> is rendered only when the active persona is found in \<open>characters\<close>.
\<close>

definition chatWindowShown :: "app \<Rightarrow> bool" where
  "chatWindowShown s =
     (case activeCharacterId s of None \<Rightarrow> False | Some cid \<Rightarrow> findCharacter s cid \<noteq> None)"

text \<open>\<open>handleSubmit\<close> of \<open>ChatWindow\<close>: \<open>if (input.trim() && !isLoading) onSendMessage(input.trim())\<close>\<close>

definition handleSubmit :: "string \<Rightarrow> string \<Rightarrow> app \<Rightarrow> app" where
  "handleSubmit input uid s =
     (if trim input \<noteq> [] \<and> \<not> isLoading s then handleSendMessage (trim input) uid s else s)"

definition handleOptionClick :: "string \<Rightarrow> string \<Rightarrow> app \<Rightarrow> app" where
  "handleOptionClick option uid s = (if \<not> isLoading s then handleSendMessage option uid s else s)"

text \<open>The button \<open>Analyze User\<close> is disabled unless there are two user messages and no analysis runs.\<close>

definition hasEnoughMessagesForAnalysis :: "message list \<Rightarrow> bool" where
  "hasEnoughMessagesForAnalysis messages = (length (filter (\<lambda>m. m_role m = User) messages) \<ge> 2)"

definition activeChatHistory :: "app \<Rightarrow> message list" where
  "activeChatHistory s = (case activeId s of None \<Rightarrow> [] | Some cid \<Rightarrow> historyOf s cid)"

subsection \<open>Events\<close>

text \<open>A timeout expires: the browser drops it from its table and runs its callback.\<close>

definition timerFires :: "nat \<Rightarrow> app \<Rightarrow> app" where
  "timerFires h s =
     (case map_of (timers s) h of
        None \<Rightarrow> s
      | Some InactivityTimer \<Rightarrow> handleSendFollowUp (clearTimeout h s)
      | Some GreetingTimer \<Rightarrow> handleProactiveGreeting (clearTimeout h s))"

text \<open>The \<open>i\<close>-th call in flight settles with result \<open>r\<close>, and its handler resumes.\<close>

definition settle ::
  "(string \<Rightarrow> jsval option) \<Rightarrow> nat \<Rightarrow> gatewayResult \<Rightarrow> string \<Rightarrow> app \<Rightarrow> app" where
  "settle JSON_parse i r uid s =
     (if i < length (inFlight s)
      then
        (let c = inFlight s ! i;
             s1 = s\<lparr>inFlight := take i (inFlight s) @ drop (Suc i) (inFlight s)\<rparr>
         in case g_kind c of
              SendCall \<Rightarrow> sendMessageSettled JSON_parse c r uid s1
            | GreetingCall \<Rightarrow> greetingSettled JSON_parse c r uid s1
            | FollowUpCall \<Rightarrow> followUpSettled JSON_parse c r uid s1
            | AnalysisCall \<Rightarrow> analysisSettled JSON_parse r s1)
      else s)"

datatype event =
    SelectCharacter string
  | OpenModal "character option"
  | CloseModal
  | ModalSubmit characterForm string real
  | DeleteCharacter string
  | SetChatMode chatMode
  | Submit string string
  | OptionClick string string
  | AnalyzeClick
  | CloseAnalysisModal
  | TimerFires nat
  | Settled nat gatewayResult string

text \<open>
  One event of the single-threaded event loop, as the user interface lets it happen:
  the sidebar lists the saved personas only, the modal is there only while it is open,
  and the chat window only while the active persona is found; it shows the message
  form in normal mode and the suggested replies in game mode. An event is taken up
  when the render and the effects of the one before are done, so every handler and
  timer callback sees the current state. The user's events, the expiry of any pending
  timeout and the settling of any call in flight may come in any order.
\<close>

fun step :: "(string \<Rightarrow> jsval option) \<Rightarrow> event \<Rightarrow> app \<Rightarrow> app" where
  "step P (SelectCharacter cid) s =
     (if findCharacter s cid \<noteq> None then selectCharacter cid s else s)"
| "step P (OpenModal c) s = handleOpenModal c s"
| "step P CloseModal s = s\<lparr>isModalOpen := False\<rparr>"
| "step P (ModalSubmit f uuid u) s = (if isModalOpen s then modalSubmit f uuid u s else s)"
| "step P (DeleteCharacter cid) s =
     (if findCharacter s cid \<noteq> None then handleDeleteCharacter cid s else s)"
| "step P (SetChatMode m) s = (if chatWindowShown s then s\<lparr>chatMode := m\<rparr> else s)"
| "step P (Submit input uid) s =
     (if chatWindowShown s \<and> chatMode s = Normal then handleSubmit input uid s else s)"
| "step P (OptionClick option uid) s =
     (if chatWindowShown s \<and> chatMode s = Game then handleOptionClick option uid s else s)"
| "step P AnalyzeClick s =
     (if chatWindowShown s \<and> hasEnoughMessagesForAnalysis (activeChatHistory s) \<and> \<not> isAnalyzing s
      then handleAnalyzeUser s else s)"
| "step P CloseAnalysisModal s = s\<lparr>isAnalysisModalOpen := False\<rparr>"
| "step P (TimerFires h) s = timerFires h s"
| "step P (Settled i r uid) s = settle P i r uid s"

fun run :: "(string \<Rightarrow> jsval option) \<Rightarrow> event list \<Rightarrow> app \<Rightarrow> app" where
  "run P [] s = s"
| "run P (e # es) s = run P es (step P e s)"

section \<open>Observations on a state\<close>

definition pendingOf :: "timerKind \<Rightarrow> app \<Rightarrow> nat list" where
  "pendingOf k s = map fst (filter (\<lambda>t. snd t = k) (timers s))"

definition followUpCount :: "app \<Rightarrow> nat" where
  "followUpCount s = length (filter (\<lambda>c. g_kind c = FollowUpCall) (issued s))"

fun isUserSend :: "event \<Rightarrow> bool" where
  "isUserSend (Submit input uid) = True"
| "isUserSend (OptionClick option uid) = True"
| "isUserSend e = False"

text \<open>
  The guard discipline between a state and a later one: with the guard set, it stays
  set and no follow-up call is issued; with the guard clear, at most one follow-up call
  is issued, and issuing it sets the guard.
\<close>

definition followUpGuarded :: "app \<Rightarrow> app \<Rightarrow> bool" where
  "followUpGuarded s s' =
     (if followUpSentRef s
      then followUpSentRef s' \<and> followUpCount s' = followUpCount s
      else followUpCount s' = followUpCount s
           \<or> (followUpCount s' = Suc (followUpCount s) \<and> followUpSentRef s'))"

text \<open>
  Every pending greeting timeout is the one \<open>proactiveGreetingTimerRef\<close> holds, every
  pending handle was returned by an earlier \<open>setTimeout\<close>, and no handle is pending twice.
\<close>

definition greetingTracked :: "app \<Rightarrow> bool" where
  "greetingTracked s =
     ((\<forall>t \<in> set (timers s). snd t = GreetingTimer \<longrightarrow> proactiveGreetingTimerRef s = Some (fst t))
      \<and> (\<forall>t \<in> set (timers s). fst t < nextTimer s)
      \<and> distinct (map fst (timers s)))"

section \<open>Example data\<close>

text \<open>
  A fragment of \<open>JSON.parse\<close>: it accepts three texts (a reply of the expected shape,
  the empty object and \<open>null\<close>) and rejects every other text.
\<close>

definition replyHi :: string where
  \<open>replyHi = ''{"dialogue":"Hi!"}''\<close>

definition exampleParse :: "string \<Rightarrow> jsval option" where
  "exampleParse response_text =
     (if response_text = replyHi then Some (Obj [(''dialogue'', Str ''Hi!'')])
      else if response_text = ''{}'' then Some (Obj [])
      else if response_text = ''null'' then Some Null
      else None)"

text \<open>Results of \<open>crypto.randomUUID()\<close>: the ids of two personas and of five messages.\<close>

definition idA :: string where
  "idA = ''aaaaaaaa-aaaa-4aaa-8aaa-aaaaaaaaaaaa''"

definition idB :: string where
  "idB = ''bbbbbbbb-bbbb-4bbb-8bbb-bbbbbbbbbbbb''"

definition msg1 :: string where
  "msg1 = ''00000000-0000-4000-8000-000000000001''"

definition msg2 :: string where
  "msg2 = ''00000000-0000-4000-8000-000000000002''"

definition msg3 :: string where
  "msg3 = ''00000000-0000-4000-8000-000000000003''"

definition msg4 :: string where
  "msg4 = ''00000000-0000-4000-8000-000000000004''"

definition msg5 :: string where
  "msg5 = ''00000000-0000-4000-8000-000000000005''"

definition msg6 :: string where
  "msg6 = ''00000000-0000-4000-8000-000000000006''"

definition exampleForm :: characterForm where
  "exampleForm =
     \<lparr>f_name = ''Ada'', f_avatar = ''A'', f_personality = ''You are Ada.'', f_memory = [],
      f_purpose = [], f_gender = Female, f_language = ''en-US'', f_voiceProfile = Medium,
      f_voiceSpeed = NormalSpeed\<rparr>"

definition secondForm :: characterForm where
  "secondForm =
     \<lparr>f_name = ''Bob'', f_avatar = ''B'', f_personality = ''You are Bob.'', f_memory = [],
      f_purpose = ''To be kind.'', f_gender = Male, f_language = ''en-US'',
      f_voiceProfile = Low, f_voiceSpeed = Slow\<rparr>"

text \<open>
  Two personas are created in normal mode, and the first one is selected: its greeting
  timer, timeout 1, is armed.
\<close>

definition setupTrace :: "event list" where
  "setupTrace =
     [OpenModal None, ModalSubmit exampleForm idA (1 / 2),
      OpenModal None, ModalSubmit secondForm idB (1 / 2),
      SelectCharacter idA]"

text \<open>The greeting timer expires, and the greeting call fails.\<close>

definition failedGreetingTrace :: "event list" where
  "failedGreetingTrace = setupTrace @ [TimerFires 1, Settled 0 TransportFailure msg1]"

text \<open>
  The user sends a message to the first persona and gets a reply, which arms the
  inactivity timer, timeout 2.
\<close>

definition afterReplyTrace :: "event list" where
  "afterReplyTrace = setupTrace @ [Submit ''hi'' msg1, Settled 0 (Response replyHi) msg2]"

text \<open>
  Then the user stays silent in that conversation: the inactivity timer expires, and the
  follow-up is sent and answered. The user selects the second persona, sends it a
  message and, while the call is in flight, selects the first persona again. The reply
  arrives and arms timeout 4, which expires; the call it makes is answered.
\<close>

definition doubleFollowUpTrace :: "event list" where
  "doubleFollowUpTrace =
     afterReplyTrace @
     [TimerFires 2, Settled 0 (Response replyHi) msg3,
      SelectCharacter idB, Submit ''yo'' msg4, SelectCharacter idA,
      Settled 0 (Response replyHi) msg5,
      TimerFires 4, Settled 0 (Response replyHi) msg6]"

text \<open>
  The user sends a message to the first persona and, while the call is in flight,
  selects the second one, whose conversation is empty. The reply arrives; the greeting
  timer of the second persona expires and its greeting arrives.
\<close>

definition switchTrace :: "event list" where
  "switchTrace =
     setupTrace @
     [Submit ''hi'' msg1, SelectCharacter idB, Settled 0 (Response replyHi) msg2,
      TimerFires 4, Settled 0 (Response replyHi) msg3]"

text \<open>A persona as submitted for saving, with a purpose of two spaces.\<close>

definition exampleCharacter :: character where
  "exampleCharacter =
     \<lparr>c_id = idB, c_name = ''Bob'', c_avatar = ''B'', c_personality = ''You are Bob.'',
      c_memory = [], c_purpose = Some ''  '', c_gender = Male, c_language = ''en-US'',
      c_voiceProfile = Medium, c_voiceSpeed = NormalSpeed\<rparr>"

text \<open>A saved male persona; the character codes of its id sum to 1729.\<close>

definition malePersona :: character where
  "malePersona =
     \<lparr>c_id = ''00000000-0000-4000-8000-000000000001'', c_name = ''Bob'', c_avatar = ''B'',
      c_personality = ''You are Bob.'', c_memory = [], c_purpose = Some ''To be kind.'',
      c_gender = Male, c_language = ''en-US'', c_voiceProfile = Medium,
      c_voiceSpeed = NormalSpeed\<rparr>"

definition voiceDavid :: voice where
  "voiceDavid =
     \<lparr>v_name = ''Microsoft David'', v_lang = ''en-US'', v_localService = True,
      v_default = False, v_voiceURI = ''Microsoft David''\<rparr>"

definition voiceZira :: voice where
  "voiceZira =
     \<lparr>v_name = ''Microsoft Zira'', v_lang = ''en-US'', v_localService = True,
      v_default = False, v_voiceURI = ''Microsoft Zira''\<rparr>"

definition voiceGerman :: voice where
  "voiceGerman =
     \<lparr>v_name = ''Google Deutsch'', v_lang = ''de-DE'', v_localService = False,
      v_default = True, v_voiceURI = ''Google Deutsch''\<rparr>"

section \<open>What each primitive leaves unchanged\<close>

lemma clearTimeout_frame [simp]:
  "issued (clearTimeout h s) = issued s"
  "inFlight (clearTimeout h s) = inFlight s"
  "followUpSentRef (clearTimeout h s) = followUpSentRef s"
  "nextTimer (clearTimeout h s) = nextTimer s"
  "proactiveGreetingTimerRef (clearTimeout h s) = proactiveGreetingTimerRef s"
  "inactivityTimerRef (clearTimeout h s) = inactivityTimerRef s"
  "chats (clearTimeout h s) = chats s"
  "characters (clearTimeout h s) = characters s"
  "activeCharacterId (clearTimeout h s) = activeCharacterId s"
  "isLoading (clearTimeout h s) = isLoading s"
  "chatMode (clearTimeout h s) = chatMode s"
  "timers (clearTimeout h s) = filter (\<lambda>t. fst t \<noteq> h) (timers s)"
  by (simp_all add: clearTimeout_def)

lemma clearIfSet_frame [simp]:
  "issued (clearIfSet r s) = issued s"
  "inFlight (clearIfSet r s) = inFlight s"
  "followUpSentRef (clearIfSet r s) = followUpSentRef s"
  "nextTimer (clearIfSet r s) = nextTimer s"
  "proactiveGreetingTimerRef (clearIfSet r s) = proactiveGreetingTimerRef s"
  "inactivityTimerRef (clearIfSet r s) = inactivityTimerRef s"
  "chats (clearIfSet r s) = chats s"
  "characters (clearIfSet r s) = characters s"
  "activeCharacterId (clearIfSet r s) = activeCharacterId s"
  "isLoading (clearIfSet r s) = isLoading s"
  "chatMode (clearIfSet r s) = chatMode s"
  "timers (clearIfSet r s) = filter (\<lambda>t. Some (fst t) \<noteq> r) (timers s)"
  by (simp_all add: clearIfSet_def split: option.splits)

lemma armInactivity_frame [simp]:
  "issued (armInactivity s) = issued s"
  "inFlight (armInactivity s) = inFlight s"
  "followUpSentRef (armInactivity s) = followUpSentRef s"
  "nextTimer (armInactivity s) = Suc (nextTimer s)"
  "proactiveGreetingTimerRef (armInactivity s) = proactiveGreetingTimerRef s"
  "inactivityTimerRef (armInactivity s) = Some (nextTimer s)"
  "chats (armInactivity s) = chats s"
  "characters (armInactivity s) = characters s"
  "activeCharacterId (armInactivity s) = activeCharacterId s"
  "isLoading (armInactivity s) = isLoading s"
  "chatMode (armInactivity s) = chatMode s"
  "timers (armInactivity s) = timers s @ [(nextTimer s, InactivityTimer)]"
  by (simp_all add: armInactivity_def setTimeout_def)

lemma armGreeting_frame [simp]:
  "issued (armGreeting s) = issued s"
  "inFlight (armGreeting s) = inFlight s"
  "followUpSentRef (armGreeting s) = followUpSentRef s"
  "nextTimer (armGreeting s) = Suc (nextTimer s)"
  "proactiveGreetingTimerRef (armGreeting s) = Some (nextTimer s)"
  "inactivityTimerRef (armGreeting s) = inactivityTimerRef s"
  "chats (armGreeting s) = chats s"
  "characters (armGreeting s) = characters s"
  "activeCharacterId (armGreeting s) = activeCharacterId s"
  "isLoading (armGreeting s) = isLoading s"
  "chatMode (armGreeting s) = chatMode s"
  "timers (armGreeting s) = timers s @ [(nextTimer s, GreetingTimer)]"
  by (simp_all add: armGreeting_def setTimeout_def)

lemma cancelInactivity_frame [simp]:
  "issued (cancelInactivity s) = issued s"
  "inFlight (cancelInactivity s) = inFlight s"
  "followUpSentRef (cancelInactivity s) = followUpSentRef s"
  "nextTimer (cancelInactivity s) = nextTimer s"
  "proactiveGreetingTimerRef (cancelInactivity s) = proactiveGreetingTimerRef s"
  "inactivityTimerRef (cancelInactivity s) = None"
  "chats (cancelInactivity s) = chats s"
  "characters (cancelInactivity s) = characters s"
  "activeCharacterId (cancelInactivity s) = activeCharacterId s"
  "isLoading (cancelInactivity s) = isLoading s"
  "chatMode (cancelInactivity s) = chatMode s"
  "timers (cancelInactivity s) = filter (\<lambda>t. Some (fst t) \<noteq> inactivityTimerRef s) (timers s)"
  by (simp_all add: cancelInactivity_def)

lemma cancelGreeting_frame [simp]:
  "issued (cancelGreeting s) = issued s"
  "inFlight (cancelGreeting s) = inFlight s"
  "followUpSentRef (cancelGreeting s) = followUpSentRef s"
  "nextTimer (cancelGreeting s) = nextTimer s"
  "proactiveGreetingTimerRef (cancelGreeting s) = None"
  "inactivityTimerRef (cancelGreeting s) = inactivityTimerRef s"
  "chats (cancelGreeting s) = chats s"
  "characters (cancelGreeting s) = characters s"
  "activeCharacterId (cancelGreeting s) = activeCharacterId s"
  "isLoading (cancelGreeting s) = isLoading s"
  "chatMode (cancelGreeting s) = chatMode s"
  "timers (cancelGreeting s) = filter (\<lambda>t. Some (fst t) \<noteq> proactiveGreetingTimerRef s) (timers s)"
  by (simp_all add: cancelGreeting_def)

lemma switchCleanup_frame [simp]:
  "issued (switchCleanup s) = issued s"
  "inFlight (switchCleanup s) = inFlight s"
  "followUpSentRef (switchCleanup s) = followUpSentRef s"
  "nextTimer (switchCleanup s) = nextTimer s"
  "proactiveGreetingTimerRef (switchCleanup s) = proactiveGreetingTimerRef s"
  "inactivityTimerRef (switchCleanup s) = inactivityTimerRef s"
  "chats (switchCleanup s) = chats s"
  "characters (switchCleanup s) = characters s"
  "activeCharacterId (switchCleanup s) = activeCharacterId s"
  "isLoading (switchCleanup s) = isLoading s"
  "chatMode (switchCleanup s) = chatMode s"
  "timers (switchCleanup s) =
     filter (\<lambda>t. Some (fst t) \<noteq> proactiveGreetingTimerRef s)
       (filter (\<lambda>t. Some (fst t) \<noteq> inactivityTimerRef s) (timers s))"
  by (simp_all add: switchCleanup_def)

lemma setChat_frame [simp]:
  "issued (setChat cid h s) = issued s"
  "inFlight (setChat cid h s) = inFlight s"
  "followUpSentRef (setChat cid h s) = followUpSentRef s"
  "nextTimer (setChat cid h s) = nextTimer s"
  "proactiveGreetingTimerRef (setChat cid h s) = proactiveGreetingTimerRef s"
  "inactivityTimerRef (setChat cid h s) = inactivityTimerRef s"
  "chats (setChat cid h s) = (chats s)(cid \<mapsto> h)"
  "characters (setChat cid h s) = characters s"
  "activeCharacterId (setChat cid h s) = activeCharacterId s"
  "isLoading (setChat cid h s) = isLoading s"
  "chatMode (setChat cid h s) = chatMode s"
  "timers (setChat cid h s) = timers s"
  by (simp_all add: setChat_def)

lemma issue_frame [simp]:
  "issued (issue c s) = issued s @ [c]"
  "inFlight (issue c s) = inFlight s @ [c]"
  "followUpSentRef (issue c s) = followUpSentRef s"
  "nextTimer (issue c s) = nextTimer s"
  "proactiveGreetingTimerRef (issue c s) = proactiveGreetingTimerRef s"
  "inactivityTimerRef (issue c s) = inactivityTimerRef s"
  "chats (issue c s) = chats s"
  "characters (issue c s) = characters s"
  "activeCharacterId (issue c s) = activeCharacterId s"
  "isLoading (issue c s) = isLoading s"
  "chatMode (issue c s) = chatMode s"
  "timers (issue c s) = timers s"
  by (simp_all add: issue_def)

lemma greetingEffect_frame [simp]:
  "issued (greetingEffect s) = issued s"
  "inFlight (greetingEffect s) = inFlight s"
  "followUpSentRef (greetingEffect s) = followUpSentRef s"
  "inactivityTimerRef (greetingEffect s) = inactivityTimerRef s"
  "chats (greetingEffect s) = chats s"
  "characters (greetingEffect s) = characters s"
  "activeCharacterId (greetingEffect s) = activeCharacterId s"
  "isLoading (greetingEffect s) = isLoading s"
  "chatMode (greetingEffect s) = chatMode s"
  by (simp_all add: greetingEffect_def Let_def)


lemma observers_frame [simp]:
  "activeId (clearTimeout h s) = activeId s"
  "activeId (clearIfSet r s) = activeId s"
  "activeId (armInactivity s) = activeId s"
  "activeId (armGreeting s) = activeId s"
  "activeId (cancelInactivity s) = activeId s"
  "activeId (cancelGreeting s) = activeId s"
  "activeId (switchCleanup s) = activeId s"
  "activeId (setChat cid hist s) = activeId s"
  "activeId (issue c s) = activeId s"
  "historyOf (clearTimeout h s) = historyOf s"
  "historyOf (clearIfSet r s) = historyOf s"
  "historyOf (armInactivity s) = historyOf s"
  "historyOf (armGreeting s) = historyOf s"
  "historyOf (cancelInactivity s) = historyOf s"
  "historyOf (cancelGreeting s) = historyOf s"
  "historyOf (switchCleanup s) = historyOf s"
  "historyOf (issue c s) = historyOf s"
  "findCharacter (clearTimeout h s) = findCharacter s"
  "findCharacter (clearIfSet r s) = findCharacter s"
  "findCharacter (armInactivity s) = findCharacter s"
  "findCharacter (armGreeting s) = findCharacter s"
  "findCharacter (cancelInactivity s) = findCharacter s"
  "findCharacter (cancelGreeting s) = findCharacter s"
  "findCharacter (switchCleanup s) = findCharacter s"
  "findCharacter (setChat cid hist s) = findCharacter s"
  "findCharacter (issue c s) = findCharacter s"
  by (simp_all add: activeId_def historyOf_def findCharacter_def fun_eq_iff)

lemma greetingDue_frame [simp]:
  "greetingDue (clearTimeout h s) = greetingDue s"
  "greetingDue (clearIfSet r s) = greetingDue s"
  "greetingDue (armInactivity s) = greetingDue s"
  "greetingDue (cancelInactivity s) = greetingDue s"
  "greetingDue (cancelGreeting s) = greetingDue s"
  "greetingDue (switchCleanup s) = greetingDue s"
  "greetingDue (issue c s) = greetingDue s"
  by (simp_all add: greetingDue_def cong: option.case_cong)

lemma observers_greetingEffect [simp]:
  "activeId (greetingEffect s) = activeId s"
  "historyOf (greetingEffect s) = historyOf s"
  "findCharacter (greetingEffect s) = findCharacter s"
  by (simp_all add: greetingEffect_def Let_def)

lemma greetingEffect_timers:
  "timers (greetingEffect s) =
     filter (\<lambda>t. Some (fst t) \<noteq> proactiveGreetingTimerRef s) (timers s)
       @ (if greetingDue s then [(nextTimer s, GreetingTimer)] else [])"
  "proactiveGreetingTimerRef (greetingEffect s) =
     (if greetingDue s then Some (nextTimer s) else proactiveGreetingTimerRef s)"
  "nextTimer (greetingEffect s) = (if greetingDue s then Suc (nextTimer s) else nextTimer s)"
  by (simp_all add: greetingEffect_def Let_def)

section \<open>The follow-up guard\<close>

lemma followUpGuarded_same:
  "followUpSentRef s' = followUpSentRef s \<Longrightarrow> followUpCount s' = followUpCount s
     \<Longrightarrow> followUpGuarded s s'"
  by (simp add: followUpGuarded_def)

lemma guarded_selectCharacter: "followUpGuarded s (selectCharacter cid s)"
  by (rule followUpGuarded_same) (simp_all add: selectCharacter_def followUpCount_def)

lemma guarded_handleOpenModal: "followUpGuarded s (handleOpenModal c s)"
  by (rule followUpGuarded_same) (simp_all add: handleOpenModal_def followUpCount_def)

lemma guarded_handleSaveCharacter: "followUpGuarded s (handleSaveCharacter ch u s)"
  by (rule followUpGuarded_same) (simp_all add: handleSaveCharacter_def Let_def followUpCount_def)

lemma guarded_modalSubmit: "followUpGuarded s (modalSubmit f uuid u s)"
  unfolding modalSubmit_def
  by (auto intro: guarded_handleSaveCharacter followUpGuarded_same simp: followUpCount_def)

lemma guarded_handleDeleteCharacter: "followUpGuarded s (handleDeleteCharacter cid s)"
  by (rule followUpGuarded_same) (simp_all add: handleDeleteCharacter_def Let_def followUpCount_def)

lemma guarded_handleAnalyzeUser: "followUpGuarded s (handleAnalyzeUser s)"
  by (rule followUpGuarded_same)
     (simp_all add: handleAnalyzeUser_def Let_def followUpCount_def issue_def split: option.splits)

lemma guarded_handleProactiveGreeting: "followUpGuarded s (handleProactiveGreeting s)"
  by (rule followUpGuarded_same)
     (simp_all add: handleProactiveGreeting_def Let_def followUpCount_def issue_def split: option.splits)

lemma guarded_handleSendFollowUp: "followUpGuarded s (handleSendFollowUp s)"
  by (simp add: followUpGuarded_def followUpCount_def handleSendFollowUp_def Let_def
        split: option.splits)

lemma guarded_sendMessageSettled: "followUpGuarded s (sendMessageSettled P c r uid s)"
  by (rule followUpGuarded_same)
     (simp_all add: sendMessageSettled_def Let_def followUpCount_def split: gatewayResult.splits)

lemma guarded_greetingSettled: "followUpGuarded s (greetingSettled P c r uid s)"
  by (rule followUpGuarded_same)
     (simp_all add: greetingSettled_def Let_def followUpCount_def split: gatewayResult.splits)

lemma guarded_followUpSettled: "followUpGuarded s (followUpSettled P c r uid s)"
  by (rule followUpGuarded_same)
     (simp_all add: followUpSettled_def Let_def followUpCount_def split: gatewayResult.splits)

lemma guarded_analysisSettled: "followUpGuarded s (analysisSettled P r s)"
  by (rule followUpGuarded_same)
     (simp_all add: analysisSettled_def Let_def followUpCount_def split: gatewayResult.splits option.splits)

lemma followUpGuarded_inFlight:
  "followUpGuarded (s\<lparr>inFlight := x\<rparr>) s' = followUpGuarded s s'"
  by (simp add: followUpGuarded_def followUpCount_def)

lemma followUpGuarded_clearTimeout:
  "followUpGuarded (clearTimeout h s) s' = followUpGuarded s s'"
  by (simp add: followUpGuarded_def followUpCount_def)

lemma guarded_timerFires: "followUpGuarded s (timerFires h s)"
proof -
  have a: "followUpGuarded s (handleSendFollowUp (clearTimeout h s))"
    using guarded_handleSendFollowUp[of "clearTimeout h s"]
    by (simp add: followUpGuarded_clearTimeout)
  have b: "followUpGuarded s (handleProactiveGreeting (clearTimeout h s))"
    using guarded_handleProactiveGreeting[of "clearTimeout h s"]
    by (simp add: followUpGuarded_clearTimeout)
  have c: "followUpGuarded s s" by (simp add: followUpGuarded_def)
  show ?thesis using a b c
    by (simp add: timerFires_def split: option.splits timerKind.splits)
qed

lemma guarded_settle: "followUpGuarded s (settle P i r uid s)"
proof (cases "i < length (inFlight s)")
  case False
  then show ?thesis by (simp add: settle_def followUpGuarded_def)
next
  case True
  let ?s1 = "s\<lparr>inFlight := take i (inFlight s) @ drop (Suc i) (inFlight s)\<rparr>"
  let ?c = "inFlight s ! i"
  have "followUpGuarded ?s1 (sendMessageSettled P ?c r uid ?s1)"
       "followUpGuarded ?s1 (greetingSettled P ?c r uid ?s1)"
       "followUpGuarded ?s1 (followUpSettled P ?c r uid ?s1)"
       "followUpGuarded ?s1 (analysisSettled P r ?s1)"
    by (rule guarded_sendMessageSettled guarded_greetingSettled guarded_followUpSettled
          guarded_analysisSettled)+
  then show ?thesis using True
    by (simp add: settle_def Let_def followUpGuarded_inFlight split: callKind.splits)
qed

lemma guarded_step: "\<not> isUserSend e \<Longrightarrow> followUpGuarded s (step P e s)"
proof (cases e)
  case (SetChatMode m)
  then show ?thesis by (simp add: followUpGuarded_def followUpCount_def)
next
  case CloseModal
  then show ?thesis by (simp add: followUpGuarded_def followUpCount_def)
next
  case CloseAnalysisModal
  then show ?thesis by (simp add: followUpGuarded_def followUpCount_def)
qed (simp_all add: guarded_selectCharacter guarded_handleOpenModal guarded_modalSubmit
       guarded_handleDeleteCharacter guarded_handleAnalyzeUser guarded_timerFires
       guarded_settle followUpGuarded_def[of s s])

lemma followUpGuarded_trans:
  "followUpGuarded s s' \<Longrightarrow> followUpGuarded s' s'' \<Longrightarrow> followUpGuarded s s''"
  by (auto simp: followUpGuarded_def split: if_splits)

lemma guarded_run:
  "\<forall>e \<in> set es. \<not> isUserSend e \<Longrightarrow> followUpGuarded s (run P es s)"
proof (induction es arbitrary: s)
  case Nil
  then show ?case by (simp add: followUpGuarded_def)
next
  case (Cons e es)
  then have "followUpGuarded s (step P e s)" "followUpGuarded (step P e s) (run P es (step P e s))"
    by (simp_all add: guarded_step)
  then show ?case using followUpGuarded_trans by simp
qed

section \<open>Greeting timers are tracked\<close>

lemma greetingTracked_update [simp]:
  "greetingTracked (s\<lparr>characters := a1\<rparr>) = greetingTracked s"
  "greetingTracked (s\<lparr>activeCharacterId := a2\<rparr>) = greetingTracked s"
  "greetingTracked (s\<lparr>chats := a3\<rparr>) = greetingTracked s"
  "greetingTracked (s\<lparr>isModalOpen := a4\<rparr>) = greetingTracked s"
  "greetingTracked (s\<lparr>editingCharacter := a5\<rparr>) = greetingTracked s"
  "greetingTracked (s\<lparr>isLoading := a6\<rparr>) = greetingTracked s"
  "greetingTracked (s\<lparr>analysisResult := a7\<rparr>) = greetingTracked s"
  "greetingTracked (s\<lparr>isAnalyzing := a8\<rparr>) = greetingTracked s"
  "greetingTracked (s\<lparr>isAnalysisModalOpen := a9\<rparr>) = greetingTracked s"
  "greetingTracked (s\<lparr>chatMode := a10\<rparr>) = greetingTracked s"
  "greetingTracked (s\<lparr>followUpSentRef := a11\<rparr>) = greetingTracked s"
  "greetingTracked (s\<lparr>inFlight := a12\<rparr>) = greetingTracked s"
  "greetingTracked (s\<lparr>alerts := a13\<rparr>) = greetingTracked s"
  "greetingTracked (s\<lparr>consoleErrors := a14\<rparr>) = greetingTracked s"
  "greetingTracked (s\<lparr>inactivityTimerRef := a15\<rparr>) = greetingTracked s"
  by (simp_all add: greetingTracked_def)

lemma greetingTracked_setChat [simp]: "greetingTracked (setChat cid hist s) = greetingTracked s"
  by (simp add: greetingTracked_def)

lemma greetingTracked_issue [simp]: "greetingTracked (issue c s) = greetingTracked s"
  by (simp add: greetingTracked_def)

lemma greetingTracked_clearTimeout: "greetingTracked s \<Longrightarrow> greetingTracked (clearTimeout h s)"
  by (simp add: greetingTracked_def distinct_map_filter)

lemma greetingTracked_clearIfSet: "greetingTracked s \<Longrightarrow> greetingTracked (clearIfSet r s)"
  by (simp add: greetingTracked_def distinct_map_filter)

lemma greetingTracked_cancelInactivity: "greetingTracked s \<Longrightarrow> greetingTracked (cancelInactivity s)"
  by (simp add: greetingTracked_def distinct_map_filter)

lemma greetingTracked_cancelGreeting: "greetingTracked s \<Longrightarrow> greetingTracked (cancelGreeting s)"
  by (auto simp: greetingTracked_def distinct_map_filter)

lemma greetingTracked_switchCleanup: "greetingTracked s \<Longrightarrow> greetingTracked (switchCleanup s)"
  by (simp add: greetingTracked_def distinct_map_filter)

lemma greetingTracked_armInactivity: "greetingTracked s \<Longrightarrow> greetingTracked (armInactivity s)"
  by (auto simp: greetingTracked_def less_Suc_eq)

lemma greetingTracked_pending_le1:
  assumes "greetingTracked s"
  shows "length (pendingOf GreetingTimer s) \<le> 1"
proof -
  have d: "distinct (pendingOf GreetingTimer s)"
    using assms by (simp add: greetingTracked_def pendingOf_def distinct_map_filter)
  have "set (pendingOf GreetingTimer s) \<subseteq> set_option (proactiveGreetingTimerRef s)"
    using assms by (auto simp: greetingTracked_def pendingOf_def)
  then have "card (set (pendingOf GreetingTimer s)) \<le> card (set_option (proactiveGreetingTimerRef s))"
    by (intro card_mono) simp_all
  also have "\<dots> \<le> 1" by (cases "proactiveGreetingTimerRef s") simp_all
  finally show ?thesis using d by (simp add: distinct_card)
qed

lemma greetingTracked_greetingEffect: "greetingTracked s \<Longrightarrow> greetingTracked (greetingEffect s)"
  by (auto simp: greetingTracked_def greetingEffect_timers less_Suc_eq distinct_map_filter)

lemmas greetingTracked_intros =
  greetingTracked_clearTimeout greetingTracked_clearIfSet greetingTracked_cancelInactivity
  greetingTracked_cancelGreeting greetingTracked_switchCleanup greetingTracked_armInactivity
  greetingTracked_greetingEffect

lemma tracked_selectCharacter: "greetingTracked s \<Longrightarrow> greetingTracked (selectCharacter cid s)"
  by (simp add: selectCharacter_def greetingTracked_intros)

lemma tracked_handleSaveCharacter: "greetingTracked s \<Longrightarrow> greetingTracked (handleSaveCharacter ch u s)"
  by (simp add: handleSaveCharacter_def Let_def greetingTracked_intros)

lemma tracked_modalSubmit: "greetingTracked s \<Longrightarrow> greetingTracked (modalSubmit f uuid u s)"
  by (simp add: modalSubmit_def tracked_handleSaveCharacter)

lemma tracked_handleDeleteCharacter: "greetingTracked s \<Longrightarrow> greetingTracked (handleDeleteCharacter cid s)"
  by (simp add: handleDeleteCharacter_def Let_def greetingTracked_intros)

lemma tracked_handleSendMessage: "greetingTracked s \<Longrightarrow> greetingTracked (handleSendMessage t uid s)"
  by (simp add: handleSendMessage_def Let_def greetingTracked_intros split: option.splits)

lemma tracked_handleSendFollowUp: "greetingTracked s \<Longrightarrow> greetingTracked (handleSendFollowUp s)"
  by (simp add: handleSendFollowUp_def Let_def greetingTracked_intros split: option.splits)

lemma tracked_handleProactiveGreeting: "greetingTracked s \<Longrightarrow> greetingTracked (handleProactiveGreeting s)"
  by (simp add: handleProactiveGreeting_def Let_def greetingTracked_intros split: option.splits)

lemma tracked_handleAnalyzeUser: "greetingTracked s \<Longrightarrow> greetingTracked (handleAnalyzeUser s)"
  by (simp add: handleAnalyzeUser_def Let_def split: option.splits)

lemma tracked_sendMessageSettled: "greetingTracked s \<Longrightarrow> greetingTracked (sendMessageSettled P c r uid s)"
  by (simp add: sendMessageSettled_def Let_def greetingTracked_intros split: gatewayResult.splits)

lemma tracked_greetingSettled: "greetingTracked s \<Longrightarrow> greetingTracked (greetingSettled P c r uid s)"
  by (simp add: greetingSettled_def Let_def greetingTracked_intros split: gatewayResult.splits)

lemma tracked_followUpSettled: "greetingTracked s \<Longrightarrow> greetingTracked (followUpSettled P c r uid s)"
  by (simp add: followUpSettled_def Let_def greetingTracked_intros split: gatewayResult.splits)

lemma tracked_analysisSettled: "greetingTracked s \<Longrightarrow> greetingTracked (analysisSettled P r s)"
  by (simp add: analysisSettled_def Let_def split: gatewayResult.splits option.splits)

lemma tracked_timerFires: "greetingTracked s \<Longrightarrow> greetingTracked (timerFires h s)"
  by (simp add: timerFires_def tracked_handleSendFollowUp tracked_handleProactiveGreeting
        greetingTracked_clearTimeout split: option.splits timerKind.splits)

lemma tracked_settle: "greetingTracked s \<Longrightarrow> greetingTracked (settle P i r uid s)"
  by (simp add: settle_def Let_def tracked_sendMessageSettled tracked_greetingSettled
        tracked_followUpSettled tracked_analysisSettled split: callKind.splits)

lemma tracked_step: "greetingTracked s \<Longrightarrow> greetingTracked (step P e s)"
  by (cases e)
     (simp_all add: tracked_selectCharacter handleOpenModal_def tracked_modalSubmit
        tracked_handleDeleteCharacter handleSubmit_def handleOptionClick_def
        tracked_handleSendMessage tracked_handleAnalyzeUser tracked_timerFires tracked_settle)

lemma tracked_run: "greetingTracked s \<Longrightarrow> greetingTracked (run P es s)"
  by (induction es arbitrary: s) (simp_all add: tracked_step)

lemma tracked_appLoaded: "greetingTracked (appLoaded cs ch)"
  by (simp add: greetingTracked_def appLoaded_def initialApp_def)

lemma pending_selectCharacter:
  assumes "greetingTracked s" "cid \<noteq> []" "activeCharacterId s \<noteq> Some cid"
  shows "pendingOf GreetingTimer (selectCharacter cid s)
           = (if historyOf s cid = [] then [nextTimer s] else [])"
proof -
  let ?s1 = "switchCleanup (s\<lparr>activeCharacterId := Some cid\<rparr>)"
  have due: "greetingDue ?s1 = (historyOf s cid = [])"
    using assms(2) by (simp add: greetingDue_def activeId_def historyOf_def)
  have none: "filter (\<lambda>t. snd t = GreetingTimer)
        (filter (\<lambda>t. Some (fst t) \<noteq> proactiveGreetingTimerRef s) (timers s)) = []"
    using assms(1) by (auto simp: greetingTracked_def filter_empty_conv)
  have "filter (\<lambda>t. snd t = GreetingTimer)
         (filter (\<lambda>t. Some (fst t) \<noteq> proactiveGreetingTimerRef s)
           (filter (\<lambda>t. Some (fst t) \<noteq> proactiveGreetingTimerRef s)
             (filter (\<lambda>t. Some (fst t) \<noteq> inactivityTimerRef s) (timers s)))) = []"
    using none by (auto simp: filter_empty_conv)
  then show ?thesis using assms(3) due
    by (simp add: pendingOf_def selectCharacter_def greetingEffect_timers)
qed

section \<open>The reply decoder\<close>

lemma decodeReply_unparsed:
  "JSON_parse body = None \<Longrightarrow>
     decodeReply JSON_parse fallback uid body
       = plainMessage uid Model (if body = [] then fallback else body)"
  by (simp add: decodeReply_def)

lemma historyOf_setChat [simp]: "historyOf (setChat cid hist s) cid = hist"
  by (simp add: historyOf_def)

lemma historyOf_update [simp]:
  "historyOf (s\<lparr>isLoading := a1\<rparr>) = historyOf s"
  "historyOf (s\<lparr>consoleErrors := a2\<rparr>) = historyOf s"
  "historyOf (s\<lparr>inFlight := a3\<rparr>) = historyOf s"
  "historyOf (s\<lparr>followUpSentRef := a4\<rparr>) = historyOf s"
  by (simp_all add: historyOf_def fun_eq_iff)

text \<open>
  Claim C5. A reply body that \<open>JSON.parse\<close> rejects is decoded, without any error
  value, into a message of role model whose text is the body itself, or the fallback
  string of the path when the body is empty; on each of the three paths that message
  is what gets appended to the conversation.
\<close>

theorem decodeReply_invalid_json:
  assumes "JSON_parse body = None"
  shows "m_role (decodeReply JSON_parse fallback uid body) = Model
     \<and> m_text (decodeReply JSON_parse fallback uid body)
           = Str (if body = [] then fallback else body)
     \<and> historyOf (sendMessageSettled JSON_parse c (Response body) uid s) (g_character c)
           = g_base c @ [plainMessage uid Model (if body = [] then sendFallback else body)]
     \<and> historyOf (greetingSettled JSON_parse c (Response body) uid s) (g_character c)
           = g_base c @ [plainMessage uid Model (if body = [] then greetingFallback else body)]
     \<and> historyOf (followUpSettled JSON_parse c (Response body) uid s) (g_character c)
           = g_base c @ [plainMessage uid Model (if body = [] then followUpFallback else body)]"
proof -
  have d: "\<And>fb. decodeReply JSON_parse fb uid body
             = plainMessage uid Model (if body = [] then fb else body)"
    using assms by (rule decodeReply_unparsed)
  have "m_role (decodeReply JSON_parse fallback uid body) = Model"
    by (simp add: d plainMessage_def)
  moreover have "m_text (decodeReply JSON_parse fallback uid body)
           = Str (if body = [] then fallback else body)"
    by (simp add: d plainMessage_def)
  moreover have "historyOf (sendMessageSettled JSON_parse c (Response body) uid s) (g_character c)
           = g_base c @ [plainMessage uid Model (if body = [] then sendFallback else body)]"
    by (simp add: sendMessageSettled_def Let_def d)
  moreover have "historyOf (greetingSettled JSON_parse c (Response body) uid s) (g_character c)
           = g_base c @ [plainMessage uid Model (if body = [] then greetingFallback else body)]"
    by (simp add: greetingSettled_def Let_def d)
  moreover have "historyOf (followUpSettled JSON_parse c (Response body) uid s) (g_character c)
           = g_base c @ [plainMessage uid Model (if body = [] then followUpFallback else body)]"
    by (simp add: followUpSettled_def Let_def d)
  ultimately show ?thesis by blast
qed

theorem decodeReply_invalid_json_witness:
  "exampleParse ''oops'' = None
   \<and> m_role (decodeReply exampleParse sendFallback msg1 ''oops'') = Model
   \<and> m_text (decodeReply exampleParse sendFallback msg1 ''oops'') = Str ''oops''
   \<and> exampleParse [] = None
   \<and> m_text (decodeReply exampleParse sendFallback msg1 []) = Str sendFallback"
proof -
  have h1: "exampleParse ''oops'' = None" by (simp add: exampleParse_def replyHi_def)
  have h2: "exampleParse [] = None" by (simp add: exampleParse_def replyHi_def)
  show ?thesis
    using h1 h2
      decodeReply_invalid_json
        [where JSON_parse = exampleParse and body = "''oops''" and fallback = sendFallback
           and uid = msg1]
      decodeReply_invalid_json
        [where JSON_parse = exampleParse and body = "[]" and fallback = sendFallback
           and uid = msg1]
    by simp
qed

section \<open>Transport failures\<close>

text \<open>
  The greeting call of the example fails: the call was issued and has settled, the
  loading indicator is off, and the conversation is still empty.
\<close>

theorem greeting_failure_counterexample:
  "map g_kind (issued (run exampleParse failedGreetingTrace initialApp)) = [GreetingCall]
   \<and> inFlight (run exampleParse failedGreetingTrace initialApp) = []
   \<and> \<not> isLoading (run exampleParse failedGreetingTrace initialApp)
   \<and> historyOf (run exampleParse failedGreetingTrace initialApp) idA = []"
  by code_simp

text \<open>
  Claim C4, amended. When the call fails at the transport level, the loading indicator
  is stopped on all three paths. On the send path an error message of role model is
  appended to the conversation. On the greeting and follow-up paths the failure is
  logged to the console only: no message is inserted and the conversations are unchanged.
\<close>

theorem transport_failure_paths:
  "historyOf (sendMessageSettled P c TransportFailure uid s) (g_character c)
       = g_base c @ [plainMessage uid Model errorText]
   \<and> \<not> isLoading (sendMessageSettled P c TransportFailure uid s)
   \<and> chats (greetingSettled P c TransportFailure uid s) = chats s
   \<and> consoleErrors (greetingSettled P c TransportFailure uid s)
       = consoleErrors s @ [''Error sending AI greeting:'']
   \<and> \<not> isLoading (greetingSettled P c TransportFailure uid s)
   \<and> chats (followUpSettled P c TransportFailure uid s) = chats s
   \<and> consoleErrors (followUpSettled P c TransportFailure uid s)
       = consoleErrors s @ [''Error sending AI follow-up:'']
   \<and> \<not> isLoading (followUpSettled P c TransportFailure uid s)"
  by (simp add: sendMessageSettled_def greetingSettled_def followUpSettled_def Let_def)

section \<open>Voice selection\<close>

lemma sortVoices_gender: "c_gender p = c_gender q \<Longrightarrow> sortVoices p vs = sortVoices q vs"
  by (simp add: sortVoices_def voiceScore_def genderScore_def)

lemma length_sortVoices [simp]: "length (sortVoices p vs) = length vs"
  by (simp add: sortVoices_def)

lemma sortVoices_eq_Nil [simp]: "sortVoices p vs = [] \<longleftrightarrow> vs = []"
  by (metis length_sortVoices length_0_conv)

lemma set_sortVoices [simp]: "set (sortVoices p vs) = set vs"
  by (simp add: sortVoices_def)

lemma at_index_mod_in_set:
  "xs \<noteq> [] \<Longrightarrow> \<exists>x \<in> set xs. at_index xs (n mod length xs) = Some x"
  by (simp add: at_index_def)

lemma getCharacterVoice_member:
  assumes "vs \<noteq> []"
  shows "\<exists>v \<in> set vs. getCharacterVoice vs p = Some v"
proof -
  define lang where "lang = (if c_language p = [] then ''en-US'' else c_language p)"
  define lv1 where "lv1 = filter (\<lambda>v. startsWith (v_lang v) (splitHyphen0 lang)) vs"
  define lv where
    "lv = (if length lv1 = 0 then filter (\<lambda>v. startsWith (v_lang v) ''en'') vs else lv1)"
  have sub: "set lv \<subseteq> set vs" by (auto simp: lv_def lv1_def)
  have g: "getCharacterVoice vs p =
      (if length lv = 0 then at_index vs 0
       else at_index (sortVoices p lv) (charCodeSum (c_id p) mod length (sortVoices p lv)))"
    using assms by (simp add: getCharacterVoice_def Let_def lv_def lv1_def lang_def)
  show ?thesis
  proof (cases "lv = []")
    case True
    then have "getCharacterVoice vs p = Some (vs ! 0)" using g assms by (simp add: at_index_def)
    moreover have "vs ! 0 \<in> set vs" using assms by simp
    ultimately show ?thesis by blast
  next
    case False
    then have ne: "sortVoices p lv \<noteq> []" by simp
    obtain x where "x \<in> set (sortVoices p lv)"
      "at_index (sortVoices p lv) (charCodeSum (c_id p) mod length (sortVoices p lv)) = Some x"
      using at_index_mod_in_set[OF ne] by blast
    then show ?thesis using g False sub by auto
  qed
qed

text \<open>
  Claim C6. For a male persona and the voices Microsoft David and Microsoft Zira, the
  claim expects David for every persona id. The persona of the example has an id whose
  character codes sum to 1729; David scores 113 and Zira -37, so the sorted list is
  David, Zira, and the index is 1729 modulo 2, the length of the whole sorted list:
  the selector returns Zira.
\<close>

theorem getCharacterVoice_david_zira:
  "c_gender malePersona = Male
   \<and> voiceScore malePersona voiceDavid = 113
   \<and> voiceScore malePersona voiceZira = - 37
   \<and> sortVoices malePersona [voiceZira, voiceDavid] = [voiceDavid, voiceZira]
   \<and> charCodeSum (c_id malePersona) = 1729
   \<and> getCharacterVoice [voiceDavid, voiceZira] malePersona = Some voiceZira
   \<and> getCharacterVoice [voiceZira, voiceDavid] malePersona = Some voiceZira"
  by code_simp

text \<open>
  No voice of the example matches the French persona or is English, and the selector
  returns the German voice, not the null result.
\<close>

theorem getCharacterVoice_nonmatching_counterexample:
  "\<not> startsWith (v_lang voiceGerman) (splitHyphen0 ''fr-FR'')
   \<and> \<not> startsWith (v_lang voiceGerman) ''en''
   \<and> getCharacterVoice [voiceGerman] (malePersona\<lparr>c_language := ''fr-FR''\<rparr>)
       = Some voiceGerman"
  by code_simp

text \<open>
  Claim C7, amended. The selector is a function of the voice list and of the persona's
  id, language and gender alone, so two calls with the same persona and the same voices
  return the same result. It never fails: it returns the null result exactly for the
  empty voice list, and one of the given voices for every other list; when no voice
  matches the persona's language and none is English, that voice is the first of the list.
\<close>

theorem getCharacterVoice_total_deterministic:
  "(c_id p = c_id q \<and> c_language p = c_language q \<and> c_gender p = c_gender q
      \<longrightarrow> getCharacterVoice vs p = getCharacterVoice vs q)
   \<and> (vs = [] \<longrightarrow> getCharacterVoice vs p = None)
   \<and> (vs \<noteq> [] \<longrightarrow> (\<exists>v \<in> set vs. getCharacterVoice vs p = Some v))
   \<and> (vs \<noteq> []
        \<and> (\<forall>v \<in> set vs. \<not> startsWith (v_lang v)
                 (splitHyphen0 (if c_language p = [] then ''en-US'' else c_language p))
               \<and> \<not> startsWith (v_lang v) ''en'')
      \<longrightarrow> getCharacterVoice vs p = Some (vs ! 0))"
proof -
  have a: "c_id p = c_id q \<and> c_language p = c_language q \<and> c_gender p = c_gender q
      \<longrightarrow> getCharacterVoice vs p = getCharacterVoice vs q"
    by (auto simp: getCharacterVoice_def Let_def sortVoices_gender[of p q])
  have b: "vs = [] \<longrightarrow> getCharacterVoice vs p = None"
    by (simp add: getCharacterVoice_def)
  have c: "vs \<noteq> [] \<longrightarrow> (\<exists>v \<in> set vs. getCharacterVoice vs p = Some v)"
    using getCharacterVoice_member by blast
  have d: "vs \<noteq> []
        \<and> (\<forall>v \<in> set vs. \<not> startsWith (v_lang v)
                 (splitHyphen0 (if c_language p = [] then ''en-US'' else c_language p))
               \<and> \<not> startsWith (v_lang v) ''en'')
      \<longrightarrow> getCharacterVoice vs p = Some (vs ! 0)"
    by (auto simp: getCharacterVoice_def Let_def at_index_def filter_empty_conv)
  show ?thesis using a b c d by blast
qed

theorem getCharacterVoice_total_deterministic_witness:
  "c_id (malePersona\<lparr>c_name := ''Robert''\<rparr>) = c_id malePersona
   \<and> c_language (malePersona\<lparr>c_name := ''Robert''\<rparr>) = c_language malePersona
   \<and> c_gender (malePersona\<lparr>c_name := ''Robert''\<rparr>) = c_gender malePersona
   \<and> [voiceDavid, voiceZira] \<noteq> []
   \<and> getCharacterVoice [voiceDavid, voiceZira] (malePersona\<lparr>c_name := ''Robert''\<rparr>)
       = getCharacterVoice [voiceDavid, voiceZira] malePersona
   \<and> (\<exists>v \<in> set [voiceDavid, voiceZira].
         getCharacterVoice [voiceDavid, voiceZira] (malePersona\<lparr>c_name := ''Robert''\<rparr>)
           = Some v)"
proof -
  have h: "c_id (malePersona\<lparr>c_name := ''Robert''\<rparr>) = c_id malePersona
   \<and> c_language (malePersona\<lparr>c_name := ''Robert''\<rparr>) = c_language malePersona
   \<and> c_gender (malePersona\<lparr>c_name := ''Robert''\<rparr>) = c_gender malePersona"
    by simp
  have n: "[voiceDavid, voiceZira] \<noteq> []" by simp
  show ?thesis
    using h n getCharacterVoice_total_deterministic
      [of "malePersona\<lparr>c_name := ''Robert''\<rparr>" malePersona "[voiceDavid, voiceZira]"]
    by blast
qed

section \<open>Saving a persona\<close>

lemma trim_empty_iff: "trim p = [] \<longleftrightarrow> (\<forall>c \<in> set p. isTrimSpace c)"
proof
  assume "trim p = []"
  then have a: "\<forall>x \<in> set (dropWhile isTrimSpace p). isTrimSpace x"
    by (simp add: trim_def dropWhile_eq_Nil_conv)
  have "dropWhile isTrimSpace p = []"
  proof (cases "dropWhile isTrimSpace p")
    case Nil then show ?thesis .
  next
    case (Cons x xs)
    then have "\<not> isTrimSpace x" using hd_dropWhile[of isTrimSpace p] by simp
    moreover have "x \<in> set (dropWhile isTrimSpace p)" using Cons by simp
    ultimately show ?thesis using a by blast
  qed
  then show "\<forall>c \<in> set p. isTrimSpace c" by (simp add: dropWhile_eq_Nil_conv)
next
  assume "\<forall>c \<in> set p. isTrimSpace c"
  then have "dropWhile isTrimSpace p = []" by (simp add: dropWhile_eq_Nil_conv)
  then show "trim p = []" by (simp only: trim_def rev.simps dropWhile.simps)
qed

lemma randomPurpose_in_pool:
  assumes "0 \<le> u" "u < 1"
  shows "\<exists>p \<in> set RANDOM_PURPOSES. randomPurpose u = Some p \<and> p \<noteq> []"
proof -
  have len: "length RANDOM_PURPOSES = 8" by (simp add: RANDOM_PURPOSES_def)
  have "0 \<le> u * 8" "u * 8 < 8" using assms by simp_all
  then have "0 \<le> \<lfloor>u * 8\<rfloor>" "\<lfloor>u * 8\<rfloor> < 8" by (simp_all add: floor_less_iff)
  then have "nat \<lfloor>u * 8\<rfloor> < 8" by linarith
  then have lt: "nat \<lfloor>u * 8\<rfloor> < length RANDOM_PURPOSES" using len by simp
  then have "randomPurpose u = Some (RANDOM_PURPOSES ! nat \<lfloor>u * 8\<rfloor>)"
    by (simp add: randomPurpose_def at_index_def len)
  moreover have "RANDOM_PURPOSES ! nat \<lfloor>u * 8\<rfloor> \<in> set RANDOM_PURPOSES"
    using lt by simp
  moreover have "\<forall>p \<in> set RANDOM_PURPOSES. p \<noteq> []" by (simp add: RANDOM_PURPOSES_def)
  ultimately show ?thesis by blast
qed

lemma c_id_characterToSave [simp]: "c_id (characterToSave ch u) = c_id ch"
  by (simp add: characterToSave_def)

lemma characters_handleSaveCharacter:
  "characters (handleSaveCharacter ch u s) =
     (case find (\<lambda>c. c_id c = c_id ch) (characters s) of
        Some existing \<Rightarrow>
          map (\<lambda>c. if c_id c = c_id ch then characterToSave ch u else c) (characters s)
      | None \<Rightarrow> characters s @ [characterToSave ch u])"
  by (simp add: handleSaveCharacter_def Let_def setChat_def split: option.splits)

lemma saved_in_characters:
  "characterToSave ch u \<in> set (characters (handleSaveCharacter ch u s))
   \<and> (\<forall>c \<in> set (characters (handleSaveCharacter ch u s)).
         c_id c = c_id ch \<longrightarrow> c = characterToSave ch u)"
proof (cases "find (\<lambda>c. c_id c = c_id ch) (characters s)")
  case None
  then have "\<forall>c \<in> set (characters s). c_id c \<noteq> c_id ch" by (simp add: find_None_iff)
  then show ?thesis using None by (auto simp: characters_handleSaveCharacter)
next
  case (Some e)
  then have "e \<in> set (characters s)" "c_id e = c_id ch"
    by (auto simp: find_Some_iff)
  then have "characterToSave ch u
      \<in> (\<lambda>c. if c_id c = c_id ch then characterToSave ch u else c) ` set (characters s)"
    by force
  then show ?thesis using Some by (auto simp: characters_handleSaveCharacter)
qed

text \<open>
  Claim C8. With \<open>u\<close> the value \<open>Math.random()\<close> returned, the persona that
  \<open>handleSaveCharacter\<close> stores in the persisted list is the one submitted, except that
  a purpose that is absent, empty or made of white space only is replaced by one of
  the 8 strings of \<open>RANDOM_PURPOSES\<close>, none of which is empty; any other purpose is kept.
  Every entry of the list with the persona's id is that stored persona.
\<close>

theorem handleSaveCharacter_purpose:
  assumes "0 \<le> u" "u < 1"
  shows "characterToSave ch u \<in> set (characters (handleSaveCharacter ch u s))
     \<and> (\<forall>c \<in> set (characters (handleSaveCharacter ch u s)).
           c_id c = c_id ch \<longrightarrow> c = characterToSave ch u)
     \<and> (purposeBlank ch \<longleftrightarrow>
           (case c_purpose ch of None \<Rightarrow> True | Some p \<Rightarrow> \<forall>c \<in> set p. isTrimSpace c))
     \<and> (purposeBlank ch \<longrightarrow>
           (\<exists>p \<in> set RANDOM_PURPOSES.
              characterToSave ch u = ch\<lparr>c_purpose := Some p\<rparr> \<and> p \<noteq> []))
     \<and> (\<not> purposeBlank ch \<longrightarrow> characterToSave ch u = ch)
     \<and> length RANDOM_PURPOSES = 8"
proof -
  have "purposeBlank ch \<longleftrightarrow>
           (case c_purpose ch of None \<Rightarrow> True | Some p \<Rightarrow> \<forall>c \<in> set p. isTrimSpace c)"
    by (simp add: purposeBlank_def trim_empty_iff split: option.splits)
  moreover have "purposeBlank ch \<longrightarrow>
           (\<exists>p \<in> set RANDOM_PURPOSES.
              characterToSave ch u = ch\<lparr>c_purpose := Some p\<rparr> \<and> p \<noteq> [])"
    using randomPurpose_in_pool[OF assms] by (auto simp: characterToSave_def)
  moreover have "\<not> purposeBlank ch \<longrightarrow> characterToSave ch u = ch"
    by (simp add: characterToSave_def)
  moreover have "length RANDOM_PURPOSES = 8" by (simp add: RANDOM_PURPOSES_def)
  ultimately show ?thesis using saved_in_characters[of ch u s] by blast
qed

theorem handleSaveCharacter_purpose_witness:
  "(0::real) \<le> 1 / 2 \<and> (1 / 2::real) < 1
   \<and> purposeBlank exampleCharacter
   \<and> characterToSave exampleCharacter (1 / 2)
       = exampleCharacter\<lparr>c_purpose := Some (RANDOM_PURPOSES ! 4)\<rparr>
   \<and> characterToSave exampleCharacter (1 / 2)
       \<in> set (characters (handleSaveCharacter exampleCharacter (1 / 2) initialApp))"
  using handleSaveCharacter_purpose [of "1 / 2" exampleCharacter initialApp]
  by (simp add: purposeBlank_def exampleCharacter_def trim_def isTrimSpace_def
        characterToSave_def randomPurpose_def at_index_def RANDOM_PURPOSES_def)

section \<open>Requesting an analysis\<close>

text \<open>
  Claim C9. With fewer than two user messages in the active conversation,
  \<open>handleAnalyzeUser\<close> issues no call and changes nothing but the list of notices
  shown, to which it adds one (none when no persona is active).
\<close>

theorem handleAnalyzeUser_too_few:
  assumes "length (filter (\<lambda>m. m_role m = User) (activeChatHistory s)) < 2"
  shows "handleAnalyzeUser s
           = (if activeId s = None then s else s\<lparr>alerts := alerts s @ [analysisNotice]\<rparr>)
     \<and> issued (handleAnalyzeUser s) = issued s
     \<and> inFlight (handleAnalyzeUser s) = inFlight s"
  using assms
  by (auto simp: handleAnalyzeUser_def activeChatHistory_def Let_def split: option.splits)

theorem handleAnalyzeUser_too_few_witness:
  "length (filter (\<lambda>m. m_role m = User)
       (activeChatHistory (run exampleParse afterReplyTrace initialApp))) < 2
   \<and> activeId (run exampleParse afterReplyTrace initialApp) = Some idA
   \<and> alerts (handleAnalyzeUser (run exampleParse afterReplyTrace initialApp)) = [analysisNotice]
   \<and> map g_kind (issued (handleAnalyzeUser (run exampleParse afterReplyTrace initialApp)))
       = [SendCall]"
proof -
  have h: "length (filter (\<lambda>m. m_role m = User)
       (activeChatHistory (run exampleParse afterReplyTrace initialApp))) < 2"
    by code_simp
  have a: "activeId (run exampleParse afterReplyTrace initialApp) = Some idA"
    by code_simp
  have b: "alerts (run exampleParse afterReplyTrace initialApp) = []"
    by code_simp
  have c: "map g_kind (issued (run exampleParse afterReplyTrace initialApp)) = [SendCall]"
    by code_simp
  show ?thesis
    using h a b c handleAnalyzeUser_too_few [OF h]
    by simp
qed

section \<open>The inactivity follow-up\<close>

lemma timers_handleSendFollowUp: "set (timers (handleSendFollowUp s)) \<subseteq> set (timers s)"
  by (auto simp: handleSendFollowUp_def Let_def split: option.splits)

lemma inactivity_followUpSettled:
  "set (pendingOf InactivityTimer (followUpSettled P c r uid s))
     \<subseteq> set (pendingOf InactivityTimer s)"
  by (auto simp: followUpSettled_def Let_def pendingOf_def greetingEffect_timers
        split: gatewayResult.splits)

lemma guard_reset_handleSendMessage:
  "activeId s \<noteq> None \<Longrightarrow> \<not> followUpSentRef (handleSendMessage t uid s)"
  by (auto simp: handleSendMessage_def Let_def split: option.splits)

text \<open>
  What the single guard \<open>followUpSentRef\<close> gives, over all personas together: over any
  sequence of events in which the user sends no message to any persona, at most one
  follow-up call is issued, and none at all once the guard is set;
  \<open>handleSendFollowUp\<close> sets the guard whenever it issues the call, and a message sent
  by the user, to whichever persona is active, resets it. Neither part of the follow-up
  handler arms an inactivity timer.
\<close>

lemma followUp_guard_all_personas:
  assumes "\<forall>e \<in> set es. \<not> isUserSend e"
  shows "followUpCount (run P es s) \<le> followUpCount s + 1
     \<and> (followUpSentRef s \<longrightarrow> followUpCount (run P es s) = followUpCount s)
     \<and> (followUpCount (handleSendFollowUp s) \<noteq> followUpCount s
          \<longrightarrow> followUpSentRef (handleSendFollowUp s))
     \<and> (activeId s \<noteq> None \<longrightarrow> \<not> followUpSentRef (handleSendMessage t uid s))
     \<and> set (timers (handleSendFollowUp s)) \<subseteq> set (timers s)
     \<and> set (pendingOf InactivityTimer (followUpSettled P c r uid s))
          \<subseteq> set (pendingOf InactivityTimer s)"
proof -
  have g: "followUpGuarded s (run P es s)" using assms by (rule guarded_run)
  have a: "followUpCount (run P es s) \<le> followUpCount s + 1"
    using g by (auto simp: followUpGuarded_def split: if_splits)
  have b: "followUpSentRef s \<longrightarrow> followUpCount (run P es s) = followUpCount s"
    using g by (auto simp: followUpGuarded_def split: if_splits)
  have c: "followUpCount (handleSendFollowUp s) \<noteq> followUpCount s
          \<longrightarrow> followUpSentRef (handleSendFollowUp s)"
    using guarded_handleSendFollowUp[of s] by (auto simp: followUpGuarded_def split: if_splits)
  show ?thesis
    using a b c guard_reset_handleSendMessage timers_handleSendFollowUp
      inactivity_followUpSettled
    by blast
qed

text \<open>
  Claim C1. The claim expects, for each conversation, no second follow-up until the
  user has sent another message in it. In the example the first persona's conversation
  gets a follow-up; the user then sends a message to the second persona, which resets
  the one guard, and selects the first persona again while that call is in flight. The
  reply arms the inactivity timer after the switch, and when it expires
  \<open>handleSendFollowUp\<close> makes its call for the persona that is active then, the first
  one. Normal mode throughout: the first persona's conversation ends with two
  follow-up replies in a row, and the only message the user sent between the two
  follow-up calls went to the second persona.
\<close>

theorem followUp_twice_in_a_row:
  "map (\<lambda>c. (g_kind c, g_character c)) (issued (run exampleParse doubleFollowUpTrace initialApp))
     = [(SendCall, idA), (FollowUpCall, idA), (SendCall, idB), (FollowUpCall, idA)]
   \<and> map g_mode (issued (run exampleParse doubleFollowUpTrace initialApp))
     = [Normal, Normal, Normal, Normal]
   \<and> map (\<lambda>m. (m_role m, m_id m)) (historyOf (run exampleParse doubleFollowUpTrace initialApp) idA)
     = [(User, msg1), (Model, msg2), (Model, msg3), (Model, msg6)]
   \<and> map (\<lambda>m. (m_role m, m_id m)) (historyOf (run exampleParse doubleFollowUpTrace initialApp) idB)
     = [(User, msg4), (Model, msg5)]
   \<and> inFlight (run exampleParse doubleFollowUpTrace initialApp) = []"
  by code_simp

section \<open>Sending a message\<close>

text \<open>
  What \<open>handleSendMessage\<close> does to the timers: it cancels the two timeouts the refs
  hold before it issues the call, and, once the reply is there, arms the inactivity
  timer in normal mode only, without clearing anything at that point.
\<close>

lemma handleSendMessage_cancels:
  assumes "activeId s = Some cid" "findCharacter s cid \<noteq> None"
  shows "timers (handleSendMessage t uid s)
           = filter (\<lambda>x. Some (fst x) \<noteq> proactiveGreetingTimerRef s)
               (filter (\<lambda>x. Some (fst x) \<noteq> inactivityTimerRef s) (timers s))
     \<and> inactivityTimerRef (handleSendMessage t uid s) = None
     \<and> proactiveGreetingTimerRef (handleSendMessage t uid s) = None
     \<and> issued (handleSendMessage t uid s)
           = issued s @ [\<lparr>g_kind = SendCall, g_character = cid, g_seed = historyOf s cid,
                           g_prompt = t, g_base = historyOf s cid @ [plainMessage uid User t],
                           g_mode = chatMode s\<rparr>]"
  using assms
  by (auto simp: handleSendMessage_def Let_def greetingEffect_timers greetingDue_def
        activeId_def historyOf_def split: option.splits)

lemma sendMessageSettled_arms:
  assumes "Some (nextTimer s) \<noteq> proactiveGreetingTimerRef s"
  shows "pendingOf InactivityTimer (sendMessageSettled P c (Response body) uid s)
     = filter (\<lambda>h. Some h \<noteq> proactiveGreetingTimerRef s) (pendingOf InactivityTimer s)
       @ (if g_mode c = Normal then [nextTimer s] else [])"
proof -
  have f: "filter (\<lambda>x. Some (fst x) \<noteq> proactiveGreetingTimerRef s \<and> snd x = InactivityTimer) (timers s)
         = filter (\<lambda>x. snd x = InactivityTimer \<and> Some (fst x) \<noteq> proactiveGreetingTimerRef s) (timers s)"
    by (rule filter_cong) auto
  show ?thesis
    using assms f
    by (simp add: sendMessageSettled_def Let_def pendingOf_def greetingEffect_timers filter_map
        o_def)
qed

text \<open>
  Claim C2. The claim expects every pending follow-up timer to be cancelled before the
  call is issued, and at most one to be pending after the reply. In the example the
  user sends a message to the first persona and selects the second one while the call
  is in flight; the reply then arms timeout 3. The greeting of the second persona
  arms timeout 5 over it, so the ref no longer holds 3. When the user now sends a
  message (normal mode, nothing loading), only timeout 5 is cancelled: timeout 3 is
  still pending while the call is in flight, and after the reply the timeouts 3 and 6
  are both pending.
\<close>

theorem inactivity_timer_orphaned:
  "activeCharacterId (run exampleParse switchTrace initialApp) = Some idB
   \<and> chatWindowShown (run exampleParse switchTrace initialApp)
   \<and> \<not> isLoading (run exampleParse switchTrace initialApp)
   \<and> chatMode (run exampleParse switchTrace initialApp) = Normal
   \<and> pendingOf InactivityTimer (run exampleParse switchTrace initialApp) = [3, 5]
   \<and> inactivityTimerRef (run exampleParse switchTrace initialApp) = Some 5
   \<and> map g_kind (inFlight (run exampleParse (switchTrace @ [Submit ''yo'' msg4]) initialApp))
       = [SendCall]
   \<and> pendingOf InactivityTimer
        (run exampleParse (switchTrace @ [Submit ''yo'' msg4]) initialApp) = [3]
   \<and> map m_text
        (historyOf
           (run exampleParse
              (switchTrace @ [Submit ''yo'' msg4, Settled 0 (Response replyHi) msg5]) initialApp)
           idB)
       = [Str ''Hi!'', Str ''yo'', Str ''Hi!'']
   \<and> pendingOf InactivityTimer
        (run exampleParse
           (switchTrace @ [Submit ''yo'' msg4, Settled 0 (Response replyHi) msg5]) initialApp)
       = [3, 6]"
  by code_simp

section \<open>Selecting a persona\<close>

text \<open>
  The greeting of the first persona has failed: the persona is listed, its conversation
  is empty and no greeting timeout is pending. Selecting it again, while it is the
  active persona, arms none.
\<close>

theorem reselect_counterexample:
  "map c_id (characters (run exampleParse failedGreetingTrace initialApp)) = [idA, idB]
   \<and> activeCharacterId (run exampleParse failedGreetingTrace initialApp) = Some idA
   \<and> historyOf (run exampleParse failedGreetingTrace initialApp) idA = []
   \<and> pendingOf GreetingTimer (run exampleParse failedGreetingTrace initialApp) = []
   \<and> pendingOf GreetingTimer
        (step exampleParse (SelectCharacter idA)
           (run exampleParse failedGreetingTrace initialApp)) = []"
  by code_simp

text \<open>
  Claim C3, amended. In every state the application reaches from its start, selecting
  a persona other than the active one arms exactly one greeting timer when that
  persona's conversation is empty (the timeout just created is the only greeting
  timeout pending) and none when it is not empty; selecting the persona that is already
  active changes nothing; and at no time is more than one greeting timeout pending.
  Persona ids are never empty.
\<close>

theorem selectCharacter_greeting_timer:
  assumes "s = run P es (appLoaded storedCharacters storedChats)" and "cid \<noteq> []"
  shows "(activeCharacterId s \<noteq> Some cid \<longrightarrow>
            pendingOf GreetingTimer (selectCharacter cid s)
              = (if historyOf s cid = [] then [nextTimer s] else []))
     \<and> (activeCharacterId s = Some cid \<longrightarrow> selectCharacter cid s = s)
     \<and> length (pendingOf GreetingTimer s) \<le> 1"
proof -
  have t: "greetingTracked s" using assms(1) tracked_run tracked_appLoaded by simp
  have a: "activeCharacterId s \<noteq> Some cid \<longrightarrow>
            pendingOf GreetingTimer (selectCharacter cid s)
              = (if historyOf s cid = [] then [nextTimer s] else [])"
    using pending_selectCharacter[OF t assms(2)] by blast
  have b: "activeCharacterId s = Some cid \<longrightarrow> selectCharacter cid s = s"
    by (simp add: selectCharacter_def)
  show ?thesis using a b greetingTracked_pending_le1[OF t] by blast
qed

theorem selectCharacter_greeting_timer_witness:
  "idA \<noteq> []
   \<and> activeCharacterId (run exampleParse (butlast setupTrace) (appLoaded [] Map.empty)) \<noteq> Some idA
   \<and> historyOf (run exampleParse (butlast setupTrace) (appLoaded [] Map.empty)) idA = []
   \<and> pendingOf GreetingTimer
        (selectCharacter idA (run exampleParse (butlast setupTrace) (appLoaded [] Map.empty)))
       = [1]"
proof -
  have h: "idA \<noteq> []" by (simp add: idA_def)
  have a: "activeCharacterId (run exampleParse (butlast setupTrace) (appLoaded [] Map.empty)) \<noteq> Some idA"
    by code_simp
  have e: "historyOf (run exampleParse (butlast setupTrace) (appLoaded [] Map.empty)) idA = []"
    by code_simp
  have n: "nextTimer (run exampleParse (butlast setupTrace) (appLoaded [] Map.empty)) = 1"
    by code_simp
  show ?thesis
    using h a e n
      selectCharacter_greeting_timer
        [OF refl h, of exampleParse "butlast setupTrace" "[]" Map.empty]
    by simp
qed

end
